theory Spec2Isabelle
  imports Complex_Main "HOL-Library.AList"
begin

section \<open>Grammar terms, dictionaries and the world of the constructor\<close>

text \<open>
  The two constructors \<^verbatim>\<open>ClassifyFst.__init__\<close> (English and Russian inverse text
  normalization) assemble one weighted transducer out of pynini operations. The automata
  themselves live inside pynini; what the Python source fixes is the expression that is
  built. A grammar is therefore the term of pynini operations the source applies:
  \<^verbatim>\<open>pynini.string_map([])\<close>, \<^verbatim>\<open>pynutil.insert\<close>, \<^verbatim>\<open>pynutil.add_weight\<close>, \<^verbatim>\<open>|\<close>, \<^verbatim>\<open>+\<close>,
  \<^verbatim>\<open>pynini.closure\<close> and \<^verbatim>\<open>.optimize()\<close>. \<open>Compiled\<close> is an automaton that comes from
  outside the two files (a tagger's \<^verbatim>\<open>.fst\<close>, \<^verbatim>\<open>delete_space\<close>, ...), named but opaque.
  Python's two operators are left associative, and the terms keep that nesting.
  Weights are Python numbers; they are reals here, \<^verbatim>\<open>1.1\<close> read as the decimal it is
  written as.
\<close>

datatype Fst =
    EmptyFst
  | Compiled string
  | Insert string
  | AddWeight Fst real
  | UnionFst Fst Fst
  | ConcatFst Fst Fst
  | ClosureFst Fst
  | OptimizeFst Fst

datatype error =
    KeyError string
  | FstIOError string
  | OSError string

text \<open>
  A Python \<^verbatim>\<open>dict\<close> is an association list in insertion order: iteration walks the list,
  \<^verbatim>\<open>d[k] = v\<close> overwrites the entry in place or appends it (\<open>AList.update\<close>),
  \<^verbatim>\<open>d[k]\<close> raises \<^verbatim>\<open>KeyError\<close> on a missing key and \<^verbatim>\<open>d.get(k, x)\<close> falls back to \<open>x\<close>.
\<close>

definition dict_contains :: "'k \<Rightarrow> ('k \<times> 'v) list \<Rightarrow> bool" where
  "dict_contains k d = (k \<in> set (map fst d))"

definition dict_get :: "('k \<times> 'v) list \<Rightarrow> 'k \<Rightarrow> 'v \<Rightarrow> 'v" where
  "dict_get d k x = (case map_of d k of None \<Rightarrow> x | Some v \<Rightarrow> v)"

definition subscript :: "(string \<times> 'v) list \<Rightarrow> string \<Rightarrow> error + 'v" where
  "subscript d k = (case map_of d k of None \<Rightarrow> Inl (KeyError k) | Some v \<Rightarrow> Inr v)"

text \<open>
  What a constructor call can touch: the regular files on disk (a compiled archive maps
  rule names to grammars; any other content cannot be deserialized), the dictionary
  objects of the caller (by address, since \<^verbatim>\<open>class_weights\<close> is passed by reference),
  the messages given to \<^verbatim>\<open>logging.info\<close> and what was printed.
\<close>

datatype artifact = FarArchive "(string \<times> Fst) list" | Undeserializable

record world =
  files :: "string \<rightharpoonup> artifact"
  heap :: "nat \<Rightarrow> (string \<times> real) list"
  log :: "string list"
  stdout :: "(string \<times> real) list list"

definition logging_info :: "string \<Rightarrow> world \<Rightarrow> world" where
  "logging_info msg w = w\<lparr>log := log w @ [msg]\<rparr>"

definition print :: "(string \<times> real) list \<Rightarrow> world \<Rightarrow> world" where
  "print d w = w\<lparr>stdout := stdout w @ [d]\<rparr>"

section \<open>Configuration handling at the head of the constructor\<close>

definition classes :: "string list" where
  "classes = [''cardinal'', ''ordinal'', ''decimal'', ''measure'', ''date'', ''word'',
              ''time'', ''money'', ''whitelist'', ''electronic'', ''telephone'']"

definition default_class_weights :: "(string \<times> real) list" where
  "default_class_weights =
     [(''cardinal'', 1.1), (''ordinal'', 1.1), (''decimal'', 1.1), (''measure'', 1.1),
      (''date'', 1.09), (''word'', 100), (''time'', 1.1), (''money'', 1.1),
      (''electronic'', 1.1), (''telephone'', 1.1), (''whitelist'', 1.01)]"

definition excluded_message :: "string \<Rightarrow> string" where
  "excluded_message k =
     ''The class '' @ k @ '' is not being excluded as the class does not exist.''"

definition weight_message :: "string \<Rightarrow> string" where
  "weight_message k =
     ''The class '' @ k @
     '' does not have a custom class weight applied to it as the class does not exist.''"

text \<open>
  \<^verbatim>\<open>for key in d: if key not in classes: logging.info(...)\<close>, over the keys in order.
\<close>

fun log_unknown :: "(string \<Rightarrow> string) \<Rightarrow> string list \<Rightarrow> world \<Rightarrow> world" where
  "log_unknown msg [] w = w"
| "log_unknown msg (k # ks) w =
     log_unknown msg ks (if k \<notin> set classes then logging_info (msg k) w else w)"

text \<open>
  \<^verbatim>\<open>for _class, weight in default_class_weights.items():
      if _class not in class_weights: class_weights[_class] = weight\<close>
\<close>

fun fill_defaults ::
  "(string \<times> real) list \<Rightarrow> (string \<times> real) list \<Rightarrow> (string \<times> real) list" where
  "fill_defaults [] class_weights = class_weights"
| "fill_defaults ((c, weight) # rest) class_weights =
     fill_defaults rest
       (if \<not> dict_contains c class_weights then AList.update c weight class_weights
        else class_weights)"

section \<open>The cache slot\<close>

text \<open>
  \<^verbatim>\<open>os.path.join(cache_dir, name)\<close> for a relative \<open>name\<close>: a separator is added unless
  the directory is empty or already ends in one.
\<close>

definition os_path_join :: "string \<Rightarrow> string \<Rightarrow> string" where
  "os_path_join a b = (if a = [] \<or> last a = CHR ''/'' then a @ b else a @ ''/'' @ b)"

text \<open>
  \<^verbatim>\<open>os.makedirs(cache_dir, exist_ok=True)\<close>. The disk of the model holds regular files
  only, under the path strings the program uses; a directory exists or can be made
  unless a regular file is in the way. The call raises an \<^verbatim>\<open>OSError\<close> on the empty
  path (\<^verbatim>\<open>FileNotFoundError\<close>) and when the path itself or one of the directories
  above it is the name of a regular file (\<^verbatim>\<open>FileExistsError\<close>,
  \<^verbatim>\<open>NotADirectoryError\<close>). \<open>ancestors d\<close> lists the path and the directories above it,
  each without trailing separators, as the file names they would collide with.
\<close>

definition strip_slashes :: "string \<Rightarrow> string" where
  "strip_slashes p = rev (dropWhile (\<lambda>c. c = CHR ''/'') (rev p))"

fun path_prefixes :: "string \<Rightarrow> string \<Rightarrow> string list" where
  "path_prefixes pre [] = [pre]"
| "path_prefixes pre (c # cs) =
     (if c = CHR ''/'' then [pre] else []) @ path_prefixes (pre @ [c]) cs"

definition ancestors :: "string \<Rightarrow> string list" where
  "ancestors d = filter (\<lambda>p. p \<noteq> []) (map strip_slashes (path_prefixes [] d))"

definition os_makedirs :: "world \<Rightarrow> string \<Rightarrow> error option" where
  "os_makedirs w d =
     (if d = [] \<or> (\<exists>p \<in> set (ancestors d). files w p \<noteq> None) then Some (OSError d)
      else None)"

text \<open>
  The slot: \<^verbatim>\<open>None\<close> when \<^verbatim>\<open>cache_dir\<close> is \<^verbatim>\<open>None\<close> or the string \<^verbatim>\<open>"None"\<close>; otherwise
  the directory is made first, and the slot is the file of that name in it.
\<close>

definition far_file_of :: "world \<Rightarrow> string option \<Rightarrow> string \<Rightarrow> error + string option" where
  "far_file_of w cache_dir name =
     (case cache_dir of
        None \<Rightarrow> Inr None
      | Some d \<Rightarrow>
          if d = ''None'' then Inr None
          else (case os_makedirs w d of
                  Some e \<Rightarrow> Inl e
                | None \<Rightarrow> Inr (Some (os_path_join d name))))"

definition os_path_exists :: "world \<Rightarrow> string \<Rightarrow> bool" where
  "os_path_exists w p = (files w p \<noteq> None)"

text \<open>
  \<^verbatim>\<open>pynini.Far(far_file, mode="r")[rule]\<close>: opening a file that is not an archive
  raises, and so does a rule the archive does not hold. The source wraps neither.
\<close>

definition far_read :: "world \<Rightarrow> string \<Rightarrow> string \<Rightarrow> error + Fst" where
  "far_read w far_file rule =
     (case files w far_file of
        None \<Rightarrow> Inl (FstIOError far_file)
      | Some Undeserializable \<Rightarrow> Inl (FstIOError far_file)
      | Some (FarArchive graphs) \<Rightarrow> subscript graphs rule)"

text \<open>
  Modelled from the spec: \<^verbatim>\<open>generator_main\<close> of \<^verbatim>\<open>graph_utils\<close> is not among the
  sources. It is the cache's \<^verbatim>\<open>store\<close>: the archive at the slot is replaced by
  the given rules.
\<close>

definition generator_main :: "string \<Rightarrow> (string \<times> Fst) list \<Rightarrow> world \<Rightarrow> world" where
  "generator_main file_name graphs w = w\<lparr>files := (files w)(file_name \<mapsto> FarArchive graphs)\<rparr>"

section \<open>Building the grammar\<close>

text \<open>
  The taggers (\<^verbatim>\<open>CardinalFst\<close>, ..., \<^verbatim>\<open>PunctuationFst\<close>) and the two space deleters of
  \<^verbatim>\<open>graph_utils\<close> are defined outside the two files: the automata they produce are
  parameters of the build, under the names of the source's variables.
\<close>

record taggers =
  cardinal_graph :: Fst
  ordinal_graph :: Fst
  decimal_graph :: Fst
  measure_graph :: Fst
  date_graph :: Fst
  word_graph :: Fst
  time_graph :: Fst
  money_graph :: Fst
  whitelist_graph :: Fst
  punct_graph :: Fst
  electronic_graph :: Fst
  telephone_graph :: Fst
  delete_space :: Fst
  delete_extra_space :: Fst

definition class_graphs_of :: "taggers \<Rightarrow> (string \<times> Fst) list" where
  "class_graphs_of t =
     [(''cardinal'', cardinal_graph t), (''ordinal'', ordinal_graph t),
      (''decimal'', decimal_graph t), (''measure'', measure_graph t),
      (''date'', date_graph t), (''word'', word_graph t), (''time'', time_graph t),
      (''money'', money_graph t), (''electronic'', electronic_graph t),
      (''telephone'', telephone_graph t), (''whitelist'', whitelist_graph t)]"

text \<open>
  \<^verbatim>\<open>for _class in class_graphs.keys():
      is_empty_graph = excluded_classes.get(_class, False)
      if is_empty_graph: class_graphs[_class] = empty_fst\<close>
  The keys are those of the dictionary when the loop starts; the loop only overwrites.
\<close>

fun exclude_loop ::
  "string list \<Rightarrow> (string \<times> bool) list \<Rightarrow> Fst \<Rightarrow> (string \<times> Fst) list \<Rightarrow> (string \<times> Fst) list" where
  "exclude_loop [] excluded_classes empty_fst class_graphs = class_graphs"
| "exclude_loop (c # cs) excluded_classes empty_fst class_graphs =
     exclude_loop cs excluded_classes empty_fst
       (let is_empty_graph = dict_get excluded_classes c False
        in if is_empty_graph then AList.update c empty_fst class_graphs else class_graphs)"

definition exclusion_filter ::
  "(string \<times> bool) list \<Rightarrow> Fst \<Rightarrow> (string \<times> Fst) list \<Rightarrow> (string \<times> Fst) list" where
  "exclusion_filter excluded_classes empty_fst class_graphs =
     exclude_loop (map fst class_graphs) excluded_classes empty_fst class_graphs"

text \<open>
  One operand of the top-level alternation,
  \<^verbatim>\<open>pynutil.add_weight(class_graphs[c], class_weights[c])\<close>, and the alternation itself;
  a failing subscript ends the evaluation, operands are evaluated left to right.
\<close>

definition shifted ::
  "(string \<times> Fst) list \<Rightarrow> (string \<times> real) list \<Rightarrow> string \<Rightarrow> error + Fst" where
  "shifted class_graphs class_weights c =
     (case subscript class_graphs c of
        Inl e \<Rightarrow> Inl e
      | Inr g \<Rightarrow>
          (case subscript class_weights c of
             Inl e \<Rightarrow> Inl e
           | Inr weight \<Rightarrow> Inr (AddWeight g weight)))"

definition union_op :: "error + Fst \<Rightarrow> error + Fst \<Rightarrow> error + Fst" where
  "union_op a b =
     (case a of
        Inl e \<Rightarrow> Inl e
      | Inr x \<Rightarrow> (case b of Inl e \<Rightarrow> Inl e | Inr y \<Rightarrow> Inr (UnionFst x y)))"

definition classify ::
  "(string \<times> Fst) list \<Rightarrow> (string \<times> real) list \<Rightarrow> error + Fst" where
  "classify class_graphs class_weights =
     union_op (union_op (union_op (union_op (union_op (union_op (union_op (union_op
       (union_op (union_op
         (shifted class_graphs class_weights ''whitelist'')
         (shifted class_graphs class_weights ''time''))
         (shifted class_graphs class_weights ''date''))
         (shifted class_graphs class_weights ''decimal''))
         (shifted class_graphs class_weights ''measure''))
         (shifted class_graphs class_weights ''cardinal''))
         (shifted class_graphs class_weights ''ordinal''))
         (shifted class_graphs class_weights ''money''))
         (shifted class_graphs class_weights ''telephone''))
         (shifted class_graphs class_weights ''electronic''))
         (shifted class_graphs class_weights ''word'')"

definition punct :: "taggers \<Rightarrow> Fst" where
  "punct t =
     ConcatFst (ConcatFst (Insert ''tokens { '') (AddWeight (punct_graph t) 1.1)) (Insert '' }'')"

definition token :: "Fst \<Rightarrow> Fst" where
  "token classify_graph = ConcatFst (ConcatFst (Insert ''tokens { '') classify_graph) (Insert '' }'')"

definition token_plus_punct :: "taggers \<Rightarrow> Fst \<Rightarrow> Fst" where
  "token_plus_punct t classify_graph =
     ConcatFst
       (ConcatFst (ClosureFst (ConcatFst (punct t) (Insert '' ''))) (token classify_graph))
       (ClosureFst (ConcatFst (Insert '' '') (punct t)))"

text \<open>
  The sentence grammar. English concatenates the separator as it is; Russian shifts it
  by 1.1 first.
\<close>

definition en_graph :: "taggers \<Rightarrow> Fst \<Rightarrow> Fst" where
  "en_graph t classify_graph =
     (let graph = ConcatFst (token_plus_punct t classify_graph)
                    (ClosureFst (ConcatFst (delete_extra_space t) (token_plus_punct t classify_graph)));
          graph = ConcatFst (ConcatFst (delete_space t) graph) (delete_space t)
      in OptimizeFst graph)"

definition ru_graph :: "taggers \<Rightarrow> Fst \<Rightarrow> Fst" where
  "ru_graph t classify_graph =
     (let graph = ConcatFst (token_plus_punct t classify_graph)
                    (ClosureFst (ConcatFst (AddWeight (delete_extra_space t) 1.1)
                                   (token_plus_punct t classify_graph)));
          graph = ConcatFst (ConcatFst (delete_space t) graph) (delete_space t)
      in OptimizeFst graph)"

text \<open>
  The \<^verbatim>\<open>else\<close> branch from the class graphs on: exclusion, alternation, sentence
  grammar, \<^verbatim>\<open>optimize\<close>. \<open>sentence\<close> is \<open>en_graph\<close> or \<open>ru_graph\<close>.
\<close>

definition build ::
  "(taggers \<Rightarrow> Fst \<Rightarrow> Fst) \<Rightarrow> taggers \<Rightarrow> (string \<times> bool) list \<Rightarrow> (string \<times> real) list
     \<Rightarrow> error + Fst" where
  "build sentence t excluded_classes class_weights =
     (let empty_fst = EmptyFst;
          class_graphs = exclusion_filter excluded_classes empty_fst (class_graphs_of t)
      in case classify class_graphs class_weights of
           Inl e \<Rightarrow> Inl e
         | Inr classify_graph \<Rightarrow> Inr (sentence t classify_graph))"

section \<open>The constructors\<close>

text \<open>
  The head of \<^verbatim>\<open>__init__\<close>, the same in both files: defaults for the two optional
  dictionaries, the diagnostics for keys outside \<open>classes\<close>, and the default weights
  written into \<^verbatim>\<open>class_weights\<close>. When the caller passed a dictionary, it is the
  caller's object (at address \<open>a\<close>) that is written; otherwise a fresh local one.
  The result is the pair of dictionaries the rest of the constructor reads.
\<close>

definition or_empty :: "'a list option \<Rightarrow> 'a list" where
  "or_empty d = (case d of None \<Rightarrow> [] | Some x \<Rightarrow> x)"

definition configure ::
  "(string \<times> bool) list option \<Rightarrow> nat option \<Rightarrow> world
     \<Rightarrow> ((string \<times> bool) list \<times> (string \<times> real) list) \<times> world" where
  "configure excluded_classes class_weights w =
     (let excluded = or_empty excluded_classes;
          w = log_unknown excluded_message (map fst excluded) w;
          supplied = or_empty (map_option (heap w) class_weights);
          filled = fill_defaults default_class_weights supplied;
          w = (case class_weights of None \<Rightarrow> w | Some a \<Rightarrow> w\<lparr>heap := (heap w)(a := filled)\<rparr>);
          w = log_unknown weight_message (map fst filled) w
      in ((excluded, filled), w))"

text \<open>
  \<^verbatim>\<open>not overwrite_cache and far_file and os.path.exists(far_file)\<close>, with Python's
  truth value of an optional string.
\<close>

definition cache_hit :: "world \<Rightarrow> bool \<Rightarrow> string option \<Rightarrow> bool" where
  "cache_hit w overwrite_cache far_file =
     (\<not> overwrite_cache \<and> (case far_file of None \<Rightarrow> False | Some f \<Rightarrow> f \<noteq> [] \<and> os_path_exists w f))"

definition restore :: "string \<Rightarrow> world \<Rightarrow> (error + Fst) \<times> world" where
  "restore far_file w =
     (case far_read w far_file ''tokenize_and_classify'' of
        Inl e \<Rightarrow> (Inl e, w)
      | Inr g \<Rightarrow> (Inr g, logging_info (''ClassifyFst.fst was restored from '' @ far_file @ ''.'') w))"

text \<open>\<^verbatim>\<open>if far_file: generator_main(far_file, {"tokenize_and_classify": self.fst}); logging.info(...)\<close>\<close>

definition save :: "string option \<Rightarrow> Fst \<Rightarrow> world \<Rightarrow> world" where
  "save far_file g w =
     (case far_file of
        None \<Rightarrow> w
      | Some f \<Rightarrow>
          if f \<noteq> [] then
            logging_info (''ClassifyFst grammars are saved to '' @ f @ ''.'')
              (generator_main f [(''tokenize_and_classify'', g)] w)
          else w)"

definition en_create ::
  "taggers \<Rightarrow> string option \<Rightarrow> (string \<times> bool) list \<Rightarrow> (string \<times> real) list \<Rightarrow> world
     \<Rightarrow> (error + Fst) \<times> world" where
  "en_create t far_file excluded_classes class_weights w =
     (let w = logging_info ''Creating ClassifyFst grammars.'' w
      in case build en_graph t excluded_classes class_weights of
           Inl e \<Rightarrow> (Inl e, w)
         | Inr g \<Rightarrow> (Inr g, save far_file g w))"

definition en_ClassifyFst_init ::
  "taggers \<Rightarrow> world \<Rightarrow> string option \<Rightarrow> bool \<Rightarrow> (string \<times> bool) list option \<Rightarrow> nat option
     \<Rightarrow> (error + Fst) \<times> world" where
  "en_ClassifyFst_init t w cache_dir overwrite_cache excluded_classes class_weights =
     (case configure excluded_classes class_weights w of
        ((excluded, weights), w) \<Rightarrow>
          (let w = print weights w
           in case far_file_of w cache_dir ''_en_itn.far'' of
                Inl e \<Rightarrow> (Inl e, w)
              | Inr far_file \<Rightarrow>
                  if cache_hit w overwrite_cache far_file then
                    (case far_file of
                       Some f \<Rightarrow> restore f w
                     | None \<Rightarrow> en_create t far_file excluded weights w)
                  else en_create t far_file excluded weights w))"

text \<open>
  Modelled from the spec: \<^verbatim>\<open>TNClassifyFst\<close>, the forward-direction grammar of the same
  language (\<^verbatim>\<open>text_normalization/ru/taggers/tokenize_and_classify.py\<close>), is not among
  the sources. It follows the cache contract of the spec: the artifact is one file
  under \<^verbatim>\<open>cache_dir\<close> named from language and direction; a stored grammar is served
  unless \<^verbatim>\<open>overwrite\<close> is set; a missing or corrupt artifact is a miss; a build is
  stored. What it builds, the name of its artifact and the inverse taggers made from
  it are parameters. Its slot follows the same rule as the inverse grammar's.
\<close>

record tn_env =
  tn_grammar :: "string \<Rightarrow> bool \<Rightarrow> Fst"
  tn_far_name :: "string \<Rightarrow> bool \<Rightarrow> string"
  itn_taggers :: "Fst \<Rightarrow> taggers"

definition tn_far_file ::
  "tn_env \<Rightarrow> world \<Rightarrow> string \<Rightarrow> bool \<Rightarrow> string option \<Rightarrow> string option" where
  "tn_far_file env w input_case deterministic cache_dir =
     (case far_file_of w cache_dir (tn_far_name env input_case deterministic) of
        Inl e \<Rightarrow> None
      | Inr far_file \<Rightarrow> far_file)"

definition cache_load :: "world \<Rightarrow> string option \<Rightarrow> Fst option" where
  "cache_load w far_file =
     (case far_file of
        None \<Rightarrow> None
      | Some f \<Rightarrow>
          (case far_read w f ''tokenize_and_classify'' of Inl e \<Rightarrow> None | Inr g \<Rightarrow> Some g))"

definition cache_store :: "string option \<Rightarrow> Fst \<Rightarrow> world \<Rightarrow> world" where
  "cache_store far_file g w =
     (case far_file of
        None \<Rightarrow> w
      | Some f \<Rightarrow> generator_main f [(''tokenize_and_classify'', g)] w)"

definition TNClassifyFst_init ::
  "tn_env \<Rightarrow> world \<Rightarrow> string \<Rightarrow> bool \<Rightarrow> string option \<Rightarrow> bool \<Rightarrow> Fst \<times> world" where
  "TNClassifyFst_init env w input_case deterministic cache_dir overwrite_cache =
     (let far_file = tn_far_file env w input_case deterministic cache_dir;
          rebuilt = tn_grammar env input_case deterministic
      in case cache_load w far_file of
           None \<Rightarrow> (rebuilt, cache_store far_file rebuilt w)
         | Some g \<Rightarrow>
             if overwrite_cache then (rebuilt, cache_store far_file rebuilt w) else (g, w))"

definition ru_create ::
  "tn_env \<Rightarrow> string option \<Rightarrow> string option \<Rightarrow> (string \<times> bool) list \<Rightarrow> (string \<times> real) list
     \<Rightarrow> world \<Rightarrow> (error + Fst) \<times> world" where
  "ru_create env cache_dir far_file excluded_classes class_weights w =
     (let w = logging_info ''Creating ClassifyFst grammars. This might take some time...'' w
      in case TNClassifyFst_init env w ''cased'' False cache_dir True of
           (tn_classify, w) \<Rightarrow>
             (case build ru_graph (itn_taggers env tn_classify) excluded_classes class_weights of
                Inl e \<Rightarrow> (Inl e, w)
              | Inr g \<Rightarrow> (Inr g, save far_file g w)))"

definition ru_ClassifyFst_init ::
  "tn_env \<Rightarrow> world \<Rightarrow> string option \<Rightarrow> bool \<Rightarrow> (string \<times> bool) list option \<Rightarrow> nat option
     \<Rightarrow> (error + Fst) \<times> world" where
  "ru_ClassifyFst_init env w cache_dir overwrite_cache excluded_classes class_weights =
     (case configure excluded_classes class_weights w of
        ((excluded, weights), w) \<Rightarrow>
          (case far_file_of w cache_dir ''_ru_itn.far'' of
             Inl e \<Rightarrow> (Inl e, w)
           | Inr far_file \<Rightarrow>
               if cache_hit w overwrite_cache far_file then
                 (case far_file of
                    Some f \<Rightarrow> restore f w
                  | None \<Rightarrow> ru_create env cache_dir far_file excluded weights w)
               else ru_create env cache_dir far_file excluded weights w))"

section \<open>Reading a built grammar\<close>

text \<open>
  The constructor takes the \<^verbatim>\<open>else\<close> branch when the slot could be computed and the
  condition of the \<^verbatim>\<open>if\<close> is false.
\<close>

definition builds :: "world \<Rightarrow> string option \<Rightarrow> bool \<Rightarrow> string \<Rightarrow> bool" where
  "builds w cache_dir overwrite_cache name =
     (case far_file_of w cache_dir name of
        Inl e \<Rightarrow> False
      | Inr far_file \<Rightarrow> \<not> cache_hit w overwrite_cache far_file)"

text \<open>
  The operands of a left-nested alternation \<^verbatim>\<open>a | b | ... | z\<close>, first to last, and the
  weights by which a given automaton is shifted wherever \<^verbatim>\<open>add_weight\<close> is applied to it.
\<close>

fun union_operands :: "Fst \<Rightarrow> Fst list" where
  "union_operands (UnionFst a b) = union_operands a @ [b]"
| "union_operands g = [g]"

fun shifts_of :: "Fst \<Rightarrow> Fst \<Rightarrow> real list" where
  "shifts_of x (AddWeight g weight) = (if g = x then [weight] else shifts_of x g)"
| "shifts_of x (UnionFst a b) = shifts_of x a @ shifts_of x b"
| "shifts_of x (ConcatFst a b) = shifts_of x a @ shifts_of x b"
| "shifts_of x (ClosureFst a) = shifts_of x a"
| "shifts_of x (OptimizeFst a) = shifts_of x a"
| "shifts_of x g = []"

text \<open>
  The alternation as the specification words it, to compare the source's with:
  the exclusion filter replaces the automaton of an excluded class by the empty
  language, a class weight is the caller's entry or else the entry of the default
  table, and the shifted class automata are united in the enumeration order
  whitelist, time, date, decimal, measure, cardinal, ordinal, money, telephone,
  electronic, word.
\<close>

definition union_order :: "string list" where
  "union_order = [''whitelist'', ''time'', ''date'', ''decimal'', ''measure'', ''cardinal'',
                  ''ordinal'', ''money'', ''telephone'', ''electronic'', ''word'']"

definition default_table :: "(string \<times> real) list" where
  "default_table =
     [(''cardinal'', 1.1), (''ordinal'', 1.1), (''decimal'', 1.1), (''measure'', 1.1),
      (''date'', 1.09), (''time'', 1.1), (''money'', 1.1), (''electronic'', 1.1),
      (''telephone'', 1.1), (''whitelist'', 1.01), (''word'', 100), (''punctuation'', 1.1)]"

definition filtered_graph :: "taggers \<Rightarrow> (string \<times> bool) list \<Rightarrow> string \<Rightarrow> Fst" where
  "filtered_graph t excluded c =
     (if dict_get excluded c False then EmptyFst else dict_get (class_graphs_of t) c EmptyFst)"

definition effective_weight :: "(string \<times> real) list \<Rightarrow> string \<Rightarrow> real" where
  "effective_weight supplied c = dict_get supplied c (dict_get default_table c 0)"

definition spec_classify :: "(string \<Rightarrow> Fst) \<Rightarrow> (string \<Rightarrow> real) \<Rightarrow> Fst" where
  "spec_classify graph_of weight_of =
     foldl UnionFst (AddWeight (graph_of (hd union_order)) (weight_of (hd union_order)))
       (map (\<lambda>c. AddWeight (graph_of c) (weight_of c)) (tl union_order))"

text \<open>The automaton of an operand \<^verbatim>\<open>add_weight(g, weight)\<close>.\<close>

fun operand_graph :: "Fst \<Rightarrow> Fst option" where
  "operand_graph (AddWeight g weight) = Some g"
| "operand_graph g = None"


text \<open>
  Modelled from the spec: the classify pass (shortest path through the composed
  grammar) is not among the sources. For one span, every operand of the top-level
  alternation either rejects it or accepts it at a least total weight; the pass selects
  the minimum total weight, and operands that tie are resolved by the enumeration order
  of the alternation, the earlier one winning. The result is the position of the
  winning operand and its weight.
\<close>

fun shortest_path :: "real option list \<Rightarrow> (nat \<times> real) option" where
  "shortest_path [] = None"
| "shortest_path (c # cs) =
     (case c of
        None \<Rightarrow> map_option (\<lambda>(j, y). (Suc j, y)) (shortest_path cs)
      | Some x \<Rightarrow>
          (case shortest_path cs of
             None \<Rightarrow> Some (0, x)
           | Some (j, y) \<Rightarrow> if x \<le> y then Some (0, x) else Some (Suc j, y)))"

section \<open>Concrete inputs\<close>

text \<open>
  Taggers whose automata are twelve distinct compiled graphs, a forward-direction
  environment, and a machine with an empty disk and empty dictionaries.
\<close>

definition example_taggers :: taggers where
  "example_taggers =
     \<lparr>cardinal_graph = Compiled ''cardinal'', ordinal_graph = Compiled ''ordinal'',
      decimal_graph = Compiled ''decimal'', measure_graph = Compiled ''measure'',
      date_graph = Compiled ''date'', word_graph = Compiled ''word'',
      time_graph = Compiled ''time'', money_graph = Compiled ''money'',
      whitelist_graph = Compiled ''whitelist'', punct_graph = Compiled ''punct'',
      electronic_graph = Compiled ''electronic'', telephone_graph = Compiled ''telephone'',
      delete_space = Compiled ''delete_space'',
      delete_extra_space = Compiled ''delete_extra_space''\<rparr>"

definition example_env :: tn_env where
  "example_env =
     \<lparr>tn_grammar = (\<lambda>input_case deterministic. Compiled ''tn''),
      tn_far_name = (\<lambda>input_case deterministic. ''_ru_tn.far''),
      itn_taggers = (\<lambda>tn_classify. example_taggers)\<rparr>"

definition empty_world :: world where
  "empty_world = \<lparr>files = Map.empty, heap = (\<lambda>a. []), log = [], stdout = []\<rparr>"

text \<open>
  Least total weights for one span that the time and the cardinal operand accept at
  the same weight 3, the word operand accepts at 102 and no other operand accepts.
\<close>

definition example_cost :: "Fst \<Rightarrow> real option" where
  "example_cost g =
     (if g = AddWeight (Compiled ''time'') 1.1 \<or> g = AddWeight (Compiled ''cardinal'') 1.1
      then Some 3
      else if g = AddWeight (Compiled ''word'') 100 then Some 102
      else None)"

text \<open>
  A machine on which the caller's dictionary (at every address) is
  \<^verbatim>\<open>{'punctuation': 5}\<close>.
\<close>

definition punctuation_world :: world where
  "punctuation_world = empty_world\<lparr>heap := (\<lambda>a. [(''punctuation'', 5)])\<rparr>"

text \<open>A machine on which the caller's dictionary is \<^verbatim>\<open>{'word': 3}\<close>.\<close>

definition word_world :: world where
  "word_world = empty_world\<lparr>heap := (\<lambda>a. [(''word'', 3)])\<rparr>"

text \<open>
  A machine whose cache directory \<^verbatim>\<open>cache\<close> holds, at both slots, a file that is not an
  archive.
\<close>

definition corrupt_world :: world where
  "corrupt_world =
     empty_world\<lparr>files := [''cache/_en_itn.far'' \<mapsto> Undeserializable,
                             ''cache/_ru_itn.far'' \<mapsto> Undeserializable]\<rparr>"

text \<open>
  A machine whose cache directory \<^verbatim>\<open>cache\<close> holds, at both slots, an archive with some
  earlier grammar.
\<close>

definition cached_world :: world where
  "cached_world =
     empty_world\<lparr>files :=
       [''cache/_en_itn.far'' \<mapsto> FarArchive [(''tokenize_and_classify'', Compiled ''earlier'')],
        ''cache/_ru_itn.far'' \<mapsto> FarArchive [(''tokenize_and_classify'', Compiled ''earlier'')]]\<rparr>"

text \<open>
  A machine whose cache directory \<^verbatim>\<open>cache\<close> holds a valid forward-direction archive
  from an earlier run and no inverse-direction archive.
\<close>

definition tn_cached_world :: world where
  "tn_cached_world =
     empty_world\<lparr>files :=
       [''cache/_ru_tn.far'' \<mapsto> FarArchive [(''tokenize_and_classify'', Compiled ''stale'')]]\<rparr>"

text \<open>A machine on which \<^verbatim>\<open>cache\<close> is a regular file, not a directory.\<close>

definition blocked_world :: world where
  "blocked_world = empty_world\<lparr>files := [''cache'' \<mapsto> Undeserializable]\<rparr>"

section \<open>Properties of the dictionaries and of the build\<close>


lemma dict_contains_iff: "dict_contains k d \<longleftrightarrow> map_of d k \<noteq> None"
  by (simp add: dict_contains_def map_of_eq_None_iff)

lemma map_of_fill_defaults:
  "map_of (fill_defaults ds cw) k = (case map_of cw k of Some v \<Rightarrow> Some v | None \<Rightarrow> map_of ds k)"
proof (induction ds arbitrary: cw)
  case Nil
  then show ?case by (simp split: option.splits)
next
  case (Cons p ds)
  obtain c weight where p: "p = (c, weight)" by (cases p)
  show ?case
    unfolding p
    by (auto simp: Cons.IH dict_contains_iff AList.update_conv'
        split: option.splits)
qed

lemma keys_exclude_loop:
  "set cs \<subseteq> set (map fst cg) \<Longrightarrow> map fst (exclude_loop cs ex e cg) = map fst cg"
proof (induction cs arbitrary: cg)
  case Nil
  then show ?case by simp
next
  case (Cons c cs)
  then have c: "c \<in> set (map fst cg)" and cs: "set cs \<subseteq> set (map fst cg)" by auto
  have keep: "map fst (AList.update c e cg) = map fst cg"
    using c by (simp add: AList.update_keys)
  show ?case
    using Cons.IH [of cg] Cons.IH [of "AList.update c e cg"] cs keep
    by (simp add: Let_def)
qed

lemma map_of_exclude_loop:
  "map_of (exclude_loop cs ex e cg) k =
     (if k \<in> set cs \<and> dict_get ex k False then Some e else map_of cg k)"
  by (induction cs arbitrary: cg) (auto simp: AList.update_conv' Let_def)

lemma keys_class_graphs_of: "set (map fst (class_graphs_of t)) = set classes"
  by (auto simp: class_graphs_of_def classes_def)

lemma map_of_filtered:
  "k \<in> set classes \<Longrightarrow>
   map_of (exclusion_filter ex EmptyFst (class_graphs_of t)) k = Some (filtered_graph t ex k)"
  unfolding exclusion_filter_def map_of_exclude_loop filtered_graph_def keys_class_graphs_of
  by (auto simp: class_graphs_of_def classes_def dict_get_def)

lemma map_of_filled:
  "k \<in> set classes \<Longrightarrow>
   map_of (fill_defaults default_class_weights supplied) k = Some (effective_weight supplied k)"
  unfolding map_of_fill_defaults effective_weight_def
  by (auto simp: default_class_weights_def default_table_def classes_def dict_get_def
      split: option.splits)

lemma classify_eq:
  assumes "\<And>k. k \<in> set classes \<Longrightarrow> map_of cg k = Some (G k)"
    and "\<And>k. k \<in> set classes \<Longrightarrow> map_of cw k = Some (W k)"
  shows "classify cg cw = Inr (spec_classify G W)"
proof -
  have sh: "shifted cg cw k = Inr (AddWeight (G k) (W k))" if "k \<in> set classes" for k
    using assms that by (simp add: shifted_def subscript_def)
  show ?thesis
    by (simp add: classify_def sh classes_def union_op_def spec_classify_def union_order_def)
qed

lemma classify_refines:
  "classify (exclusion_filter ex EmptyFst (class_graphs_of t))
            (fill_defaults default_class_weights supplied)
   = Inr (spec_classify (filtered_graph t ex) (effective_weight supplied))"
  by (rule classify_eq) (simp_all add: map_of_filtered map_of_filled)

lemma build_refines:
  "build sentence t ex (fill_defaults default_class_weights supplied)
   = Inr (sentence t (spec_classify (filtered_graph t ex) (effective_weight supplied)))"
  by (simp add: build_def classify_refines)

lemma union_operands_foldl:
  "union_operands (foldl UnionFst a bs) = union_operands a @ bs"
  by (induction bs arbitrary: a) simp_all

lemma union_operands_spec_classify:
  "union_operands (spec_classify G W) = map (\<lambda>c. AddWeight (G c) (W c)) union_order"
  by (simp add: spec_classify_def union_operands_foldl union_order_def)


lemma log_unknown_frame [simp]:
  "files (log_unknown msg ks w) = files w"
  "heap (log_unknown msg ks w) = heap w"
  "stdout (log_unknown msg ks w) = stdout w"
  by (induction ks arbitrary: w) (simp_all add: logging_info_def)


lemma fst_configure:
  "fst (configure ex cwref w) =
     (or_empty ex, fill_defaults default_class_weights (or_empty (map_option (heap w) cwref)))"
  by (simp add: configure_def Let_def)

lemma files_configure [simp]: "files (snd (configure ex cwref w)) = files w"
  by (simp add: configure_def Let_def split: option.splits)

lemma heap_configure:
  "heap (snd (configure ex cwref w)) =
     (case cwref of
        None \<Rightarrow> heap w
      | Some a \<Rightarrow> (heap w)(a := fill_defaults default_class_weights (heap w a)))"
  by (simp add: configure_def Let_def or_empty_def split: option.splits)


lemma cache_hit_files: "files w = files w' \<Longrightarrow> cache_hit w ov f = cache_hit w' ov f"
  by (simp add: cache_hit_def os_path_exists_def split: option.splits)

lemma os_makedirs_files: "files w = files w' \<Longrightarrow> os_makedirs w d = os_makedirs w' d"
  by (simp add: os_makedirs_def)

lemma far_file_of_files:
  "files w = files w' \<Longrightarrow> far_file_of w cd name = far_file_of w' cd name"
  by (simp add: far_file_of_def os_makedirs_files [of w w'] split: option.splits)

lemma builds_files: "files w = files w' \<Longrightarrow> builds w cd ov name = builds w' cd ov name"
  by (simp add: builds_def cache_hit_files [of w w'] far_file_of_files [of w w']
      split: sum.splits)

lemma en_init_builds:
  assumes "builds w cache_dir ov ''_en_itn.far''"
  shows "fst (en_ClassifyFst_init t w cache_dir ov ex cwref) =
           Inr (en_graph t (spec_classify (filtered_graph t (or_empty ex))
                  (effective_weight (or_empty (map_option (heap w) cwref)))))"
proof -
  obtain cfg w1 where c: "configure ex cwref w = (cfg, w1)" by (cases "configure ex cwref w")
  have cfg: "cfg = (or_empty ex, fill_defaults default_class_weights (or_empty (map_option (heap w) cwref)))"
    using fst_configure [of ex cwref w] c by simp
  have f: "files (print x w1) = files w" for x
    using files_configure [of ex cwref w] c by (simp add: print_def)
  have ff: "far_file_of (print x w1) cache_dir n = far_file_of w cache_dir n" for x n
    by (rule far_file_of_files) (rule f)
  have ch: "cache_hit (print x w1) ov far_file = cache_hit w ov far_file" for x far_file
    by (rule cache_hit_files) (rule f)
  note b = assms [unfolded builds_def]
  show ?thesis
    using b
    by (auto simp: en_ClassifyFst_init_def c cfg Let_def en_create_def build_refines ff ch
        split: sum.splits option.splits)
qed


lemma shortest_path_None: "shortest_path cs = None \<longleftrightarrow> (\<forall>c \<in> set cs. c = None)"
  by (induction cs) (auto split: option.splits)

lemma shortest_path_sound:
  "shortest_path cs = Some (j, y) \<Longrightarrow> j < length cs \<and> cs ! j = Some y"
  by (induction cs arbitrary: j y) (auto split: option.splits if_splits)

lemma shortest_path_first_min:
  assumes "i < length cs" and "cs ! i = Some x"
    and "\<And>k y. k < length cs \<Longrightarrow> cs ! k = Some y \<Longrightarrow> x \<le> y"
    and "\<And>k. k < i \<Longrightarrow> cs ! k \<noteq> Some x"
  shows "shortest_path cs = Some (i, x)"
  using assms
proof (induction cs arbitrary: i)
  case Nil
  then show ?case by simp
next
  case (Cons c cs)
  show ?case
  proof (cases i)
    case 0
    with Cons.prems(2) have c: "c = Some x" by simp
    show ?thesis
    proof (cases "shortest_path cs")
      case None
      with c 0 show ?thesis by simp
    next
      case (Some p)
      obtain j y where p: "p = (j, y)" by (cases p)
      from shortest_path_sound [of cs j y] Some p
      have "j < length cs" "cs ! j = Some y" by simp_all
      with Cons.prems(3) [of "Suc j" y] have "x \<le> y" by simp
      with c 0 Some p show ?thesis by simp
    qed
  next
    case (Suc i')
    have i': "i' < length cs" "cs ! i' = Some x"
      using Cons.prems(1,2) Suc by simp_all
    have min: "\<And>k y. k < length cs \<Longrightarrow> cs ! k = Some y \<Longrightarrow> x \<le> y"
      using Cons.prems(3) by (metis Suc_less_eq length_Cons nth_Cons_Suc)
    have first: "\<And>k. k < i' \<Longrightarrow> cs ! k \<noteq> Some x"
      using Cons.prems(4) Suc by (metis Suc_less_eq nth_Cons_Suc)
    have rest: "shortest_path cs = Some (i', x)"
      using Cons.IH [OF i' min first] by simp
    have c: "c \<noteq> Some x"
      using Cons.prems(4) [of 0] Suc by simp
    show ?thesis
    proof (cases c)
      case None
      with rest Suc show ?thesis by simp
    next
      case (Some z)
      with Cons.prems(3) [of 0 z] have "x \<le> z" by simp
      with c Some have "\<not> z \<le> x" by auto
      with Some rest Suc show ?thesis by simp
    qed
  qed
qed

lemma tn_init_overwrite:
  "fst (TNClassifyFst_init env w ic det cd True) = tn_grammar env ic det"
  "snd (TNClassifyFst_init env w ic det cd True) =
     cache_store (tn_far_file env w ic det cd) (tn_grammar env ic det) w"
  by (simp_all add: TNClassifyFst_init_def Let_def split: option.splits)

lemma files_logging_info [simp]: "files (logging_info m w) = files w"
  by (simp add: logging_info_def)

lemma ru_init_builds:
  assumes "builds w cache_dir ov ''_ru_itn.far''"
  shows "fst (ru_ClassifyFst_init env w cache_dir ov ex cwref) =
           Inr (ru_graph (itn_taggers env (tn_grammar env ''cased'' False))
                 (spec_classify
                    (filtered_graph (itn_taggers env (tn_grammar env ''cased'' False)) (or_empty ex))
                    (effective_weight (or_empty (map_option (heap w) cwref)))))"
proof -
  obtain cfg w1 where c: "configure ex cwref w = (cfg, w1)" by (cases "configure ex cwref w")
  have cfg: "cfg = (or_empty ex, fill_defaults default_class_weights (or_empty (map_option (heap w) cwref)))"
    using fst_configure [of ex cwref w] c by simp
  have f: "files w1 = files w"
    using files_configure [of ex cwref w] c by simp
  have ff: "far_file_of w1 cache_dir n = far_file_of w cache_dir n" for n
    by (rule far_file_of_files) (rule f)
  have ch: "cache_hit w1 ov far_file = cache_hit w ov far_file" for far_file
    by (rule cache_hit_files) (rule f)
  note b = assms [unfolded builds_def]
  obtain tn w2 where tn: "TNClassifyFst_init env
      (logging_info ''Creating ClassifyFst grammars. This might take some time...'' w1)
      ''cased'' False cache_dir True = (tn, w2)"
    by (cases "TNClassifyFst_init env
      (logging_info ''Creating ClassifyFst grammars. This might take some time...'' w1)
      ''cased'' False cache_dir True")
  have tn_eq: "tn = tn_grammar env ''cased'' False"
    using tn_init_overwrite(1) [of env _ "''cased''" False cache_dir] tn
    by (metis fst_conv)
  show ?thesis
    using b
    by (auto simp: ru_ClassifyFst_init_def c cfg Let_def ru_create_def tn tn_eq ff ch
        build_refines split: sum.splits option.splits)
qed

lemma far_file_nonempty:
  "far_file_of w cd name = Inr (Some f) \<Longrightarrow> name \<noteq> [] \<Longrightarrow> f \<noteq> []"
  by (auto simp: far_file_of_def os_path_join_def split: option.splits if_splits)

lemma files_save:
  "f \<noteq> [] \<Longrightarrow> files (save (Some f) g w) = (files w)(f \<mapsto> FarArchive [(''tokenize_and_classify'', g)])"
  "files (save None g w) = files w"
  by (simp_all add: save_def generator_main_def logging_info_def)

lemma en_init_builds_world:
  assumes "builds w cache_dir ov ''_en_itn.far''"
    and "far_file_of w cache_dir ''_en_itn.far'' = Inr far_file"
  shows "snd (en_ClassifyFst_init t w cache_dir ov ex cwref) =
           save far_file
             (en_graph t (spec_classify (filtered_graph t (or_empty ex))
                  (effective_weight (or_empty (map_option (heap w) cwref)))))
             (logging_info ''Creating ClassifyFst grammars.''
               (print (fill_defaults default_class_weights (or_empty (map_option (heap w) cwref)))
                  (snd (configure ex cwref w))))"
proof -
  obtain cfg w1 where c: "configure ex cwref w = (cfg, w1)" by (cases "configure ex cwref w")
  have cfg: "cfg = (or_empty ex, fill_defaults default_class_weights (or_empty (map_option (heap w) cwref)))"
    using fst_configure [of ex cwref w] c by simp
  have f: "files (print x w1) = files w" for x
    using files_configure [of ex cwref w] c by (simp add: print_def)
  have ff: "far_file_of (print x w1) cache_dir n = far_file_of w cache_dir n" for x n
    by (rule far_file_of_files) (rule f)
  have ch: "cache_hit (print x w1) ov far_file = cache_hit w ov far_file" for x far_file
    by (rule cache_hit_files) (rule f)
  note b = assms(1) [unfolded builds_def]
  show ?thesis
    using b assms(2)
    by (auto simp: en_ClassifyFst_init_def c cfg Let_def en_create_def build_refines ff ch
        split: sum.splits option.splits)
qed

lemma ru_init_builds_world:
  assumes "builds w cache_dir ov ''_ru_itn.far''"
    and "far_file_of w cache_dir ''_ru_itn.far'' = Inr far_file"
  shows "snd (ru_ClassifyFst_init env w cache_dir ov ex cwref) =
           save far_file
             (ru_graph (itn_taggers env (tn_grammar env ''cased'' False))
                 (spec_classify
                    (filtered_graph (itn_taggers env (tn_grammar env ''cased'' False)) (or_empty ex))
                    (effective_weight (or_empty (map_option (heap w) cwref)))))
             (snd (TNClassifyFst_init env
                (logging_info ''Creating ClassifyFst grammars. This might take some time...''
                   (snd (configure ex cwref w)))
                ''cased'' False cache_dir True))"
proof -
  obtain cfg w1 where c: "configure ex cwref w = (cfg, w1)" by (cases "configure ex cwref w")
  have cfg: "cfg = (or_empty ex, fill_defaults default_class_weights (or_empty (map_option (heap w) cwref)))"
    using fst_configure [of ex cwref w] c by simp
  have f: "files w1 = files w"
    using files_configure [of ex cwref w] c by simp
  have ff: "far_file_of w1 cache_dir n = far_file_of w cache_dir n" for n
    by (rule far_file_of_files) (rule f)
  have ch: "cache_hit w1 ov far_file = cache_hit w ov far_file" for far_file
    by (rule cache_hit_files) (rule f)
  note b = assms(1) [unfolded builds_def]
  obtain tn w2 where tn: "TNClassifyFst_init env
      (logging_info ''Creating ClassifyFst grammars. This might take some time...'' w1)
      ''cased'' False cache_dir True = (tn, w2)"
    by (cases "TNClassifyFst_init env
      (logging_info ''Creating ClassifyFst grammars. This might take some time...'' w1)
      ''cased'' False cache_dir True")
  have tn_eq: "tn = tn_grammar env ''cased'' False"
    using tn_init_overwrite(1) [of env _ "''cased''" False cache_dir] tn
    by (metis fst_conv)
  show ?thesis
    using b assms(2)
    by (auto simp: ru_ClassifyFst_init_def c cfg Let_def ru_create_def tn tn_eq ff ch
        build_refines split: sum.splits option.splits)
qed

lemma default_table_values:
  "dict_get default_table ''whitelist'' 0 = 1.01"
  "dict_get default_table ''time'' 0 = 1.1"
  "dict_get default_table ''date'' 0 = 1.09"
  "dict_get default_table ''decimal'' 0 = 1.1"
  "dict_get default_table ''measure'' 0 = 1.1"
  "dict_get default_table ''cardinal'' 0 = 1.1"
  "dict_get default_table ''ordinal'' 0 = 1.1"
  "dict_get default_table ''money'' 0 = 1.1"
  "dict_get default_table ''telephone'' 0 = 1.1"
  "dict_get default_table ''electronic'' 0 = 1.1"
  "dict_get default_table ''word'' 0 = 100"
  by (simp_all add: dict_get_def default_table_def)

lemma shifted_refines:
  "k \<in> set classes \<Longrightarrow>
   shifted (exclusion_filter ex EmptyFst (class_graphs_of t))
           (fill_defaults default_class_weights supplied) k
   = Inr (AddWeight (filtered_graph t ex k) (effective_weight supplied k))"
  by (simp add: shifted_def subscript_def map_of_filtered map_of_filled)

lemma operands_are_shifted:
  "map Inr (union_operands (spec_classify (filtered_graph t ex) (effective_weight supplied)))
   = map (shifted (exclusion_filter ex EmptyFst (class_graphs_of t))
                  (fill_defaults default_class_weights supplied))
       [''whitelist'', ''time'', ''date'', ''decimal'', ''measure'', ''cardinal'',
        ''ordinal'', ''money'', ''telephone'', ''electronic'', ''word'']"
  unfolding union_operands_spec_classify
  by (simp add: union_order_def shifted_refines classes_def)

lemma first_minimum_wins:
  assumes "i < length ops" and "cost (ops ! i) = Some x"
    and "\<forall>g \<in> set ops. \<forall>y. cost g = Some y \<longrightarrow> x \<le> y"
    and "\<forall>k<i. cost (ops ! k) \<noteq> Some x"
  shows "shortest_path (map cost ops) = Some (i, x)"
proof (rule shortest_path_first_min)
  show "i < length (map cost ops)" using assms(1) by simp
  show "map cost ops ! i = Some x" using assms(1,2) by simp
  show "x \<le> y" if "k < length (map cost ops)" "map cost ops ! k = Some y" for k y
    using that assms(3) nth_mem [of k ops] by auto
  show "map cost ops ! k \<noteq> Some x" if "k < i" for k
    using that assms(1,4) by simp
qed

lemma en_init_stores:
  assumes "builds w cache_dir ov ''_en_itn.far''"
    and "far_file_of w cache_dir ''_en_itn.far'' = Inr (Some f)"
  shows "files (snd (en_ClassifyFst_init t w cache_dir ov ex cwref)) f =
           Some (FarArchive [(''tokenize_and_classify'',
             en_graph t (spec_classify (filtered_graph t (or_empty ex))
                  (effective_weight (or_empty (map_option (heap w) cwref)))))])"
proof -
  have "f \<noteq> []" using assms(2) by (rule far_file_nonempty) simp
  then show ?thesis
    by (simp add: en_init_builds_world [OF assms] files_save)
qed

lemma ru_init_stores:
  assumes "builds w cache_dir ov ''_ru_itn.far''"
    and "far_file_of w cache_dir ''_ru_itn.far'' = Inr (Some f)"
  shows "files (snd (ru_ClassifyFst_init env w cache_dir ov ex cwref)) f =
           Some (FarArchive [(''tokenize_and_classify'',
             ru_graph (itn_taggers env (tn_grammar env ''cased'' False))
                 (spec_classify
                    (filtered_graph (itn_taggers env (tn_grammar env ''cased'' False)) (or_empty ex))
                    (effective_weight (or_empty (map_option (heap w) cwref)))))])"
proof -
  have "f \<noteq> []" using assms(2) by (rule far_file_nonempty) simp
  then show ?thesis
    by (simp add: ru_init_builds_world [OF assms] files_save)
qed

lemma spec_classify_cong:
  assumes "\<And>k. k \<in> set union_order \<Longrightarrow> G k = G' k"
    and "\<And>k. k \<in> set union_order \<Longrightarrow> W k = W' k"
  shows "spec_classify G W = spec_classify G' W'"
  using assms by (simp add: spec_classify_def union_order_def)

lemma effective_weight_update_other:
  "k \<noteq> c \<Longrightarrow> effective_weight (AList.update c x d) k = effective_weight d k"
  by (simp add: effective_weight_def dict_get_def AList.update_conv')

lemma shifts_of_punct: "shifts_of (punct_graph t) (punct t) = [1.1]"
  by (simp add: punct_def)

lemma update_appends_new:
  "\<not> dict_contains k d \<Longrightarrow> AList.update k v d = d @ [(k, v)]"
  by (induction d) (auto simp: dict_contains_def)

lemma fill_defaults_appends: "\<exists>new. fill_defaults ds cw = cw @ new"
proof (induction ds arbitrary: cw)
  case Nil
  then show ?case by simp
next
  case (Cons p ds)
  obtain c weight where p: "p = (c, weight)" by (cases p)
  show ?case
  proof (cases "dict_contains c cw")
    case True
    with Cons.IH [of cw] p show ?thesis by simp
  next
    case False
    from Cons.IH [of "cw @ [(c, weight)]"]
    obtain new where "fill_defaults ds (cw @ [(c, weight)]) = (cw @ [(c, weight)]) @ new" ..
    with False p show ?thesis by (simp add: update_appends_new)
  qed
qed

lemma fill_defaults_noop:
  "\<forall>k \<in> fst ` set ds. dict_contains k cw \<Longrightarrow> fill_defaults ds cw = cw"
  by (induction ds arbitrary: cw) auto

lemma fill_defaults_contains:
  "k \<in> fst ` set ds \<Longrightarrow> dict_contains k (fill_defaults ds cw)"
proof -
  assume "k \<in> fst ` set ds"
  then have "map_of ds k \<noteq> None" by (simp add: map_of_eq_None_iff)
  then show ?thesis
    by (auto simp: dict_contains_iff map_of_fill_defaults split: option.splits)
qed

lemma fill_defaults_idem: "fill_defaults ds (fill_defaults ds cw) = fill_defaults ds cw"
  by (rule fill_defaults_noop) (simp add: fill_defaults_contains)

lemma heap_frame [simp]:
  "heap (logging_info m w) = heap w"
  "heap (print d w) = heap w"
  "heap (generator_main f gs w) = heap w"
  "heap (save far_file g w) = heap w"
  "heap (cache_store far_file g w) = heap w"
  by (simp_all add: logging_info_def print_def generator_main_def save_def cache_store_def
      split: option.splits)

lemma heap_restore [simp]: "heap (snd (restore f w)) = heap w"
  by (simp add: restore_def split: sum.splits)

lemma heap_en_create [simp]: "heap (snd (en_create t far_file ex cw w)) = heap w"
  by (simp add: en_create_def Let_def split: sum.splits)

lemma heap_tn_init [simp]: "heap (snd (TNClassifyFst_init env w ic det cd ov)) = heap w"
  by (simp add: TNClassifyFst_init_def Let_def split: option.splits)

lemma heap_ru_create [simp]: "heap (snd (ru_create env cd far_file ex cw w)) = heap w"
proof -
  obtain tn w2 where tn: "TNClassifyFst_init env
      (logging_info ''Creating ClassifyFst grammars. This might take some time...'' w)
      ''cased'' False cd True = (tn, w2)"
    by (cases "TNClassifyFst_init env
      (logging_info ''Creating ClassifyFst grammars. This might take some time...'' w)
      ''cased'' False cd True")
  have "heap w2 = heap w"
    using heap_tn_init [of env
        "logging_info ''Creating ClassifyFst grammars. This might take some time...'' w"
        "''cased''" False cd True] tn
    by simp
  then show ?thesis
    by (simp add: ru_create_def Let_def tn split: sum.splits)
qed

lemma heap_en_init:
  "heap (snd (en_ClassifyFst_init t w cd ov ex cwref)) = heap (snd (configure ex cwref w))"
proof -
  obtain cfg w1 where c: "configure ex cwref w = (cfg, w1)" by (cases "configure ex cwref w")
  obtain e cw where cfg: "cfg = (e, cw)" by (cases cfg)
  show ?thesis
    by (simp add: en_ClassifyFst_init_def c cfg Let_def split: sum.splits option.splits)
qed

lemma heap_ru_init:
  "heap (snd (ru_ClassifyFst_init env w cd ov ex cwref)) = heap (snd (configure ex cwref w))"
proof -
  obtain cfg w1 where c: "configure ex cwref w = (cfg, w1)" by (cases "configure ex cwref w")
  obtain e cw where cfg: "cfg = (e, cw)" by (cases cfg)
  show ?thesis
    by (simp add: ru_ClassifyFst_init_def c cfg Let_def split: sum.splits option.splits)
qed


lemma configure_mutates:
  assumes "heap w1 = heap (snd (configure ex (Some a) w))"
  shows "heap w1 a = fill_defaults default_class_weights (heap w a)
      \<and> (\<exists>new. heap w1 a = heap w a @ new)
      \<and> set classes \<subseteq> fst ` set (heap w1 a)
      \<and> (\<forall>k. dict_contains k (heap w a) \<longrightarrow> map_of (heap w1 a) k = map_of (heap w a) k)
      \<and> (\<forall>k. \<not> dict_contains k (heap w a) \<longrightarrow>
             map_of (heap w1 a) k = map_of default_class_weights k)
      \<and> (\<forall>b. b \<noteq> a \<longrightarrow> heap w1 b = heap w b)
      \<and> snd (fst (configure ex' (Some a) w1)) = heap w1 a
      \<and> heap (snd (en_ClassifyFst_init t' w1 cd' ov' ex' (Some a))) a = heap w1 a
      \<and> heap (snd (ru_ClassifyFst_init env' w1 cd' ov' ex' (Some a))) a = heap w1 a"
proof -
  have h: "heap w1 a = fill_defaults default_class_weights (heap w a)"
    by (simp add: assms heap_configure)
  have other: "\<forall>b. b \<noteq> a \<longrightarrow> heap w1 b = heap w b"
    by (simp add: assms heap_configure)
  have keys: "set classes \<subseteq> fst ` set (heap w1 a)"
  proof
    fix k assume "k \<in> set classes"
    then have "k \<in> fst ` set default_class_weights"
      by (auto simp: classes_def default_class_weights_def)
    then show "k \<in> fst ` set (heap w1 a)"
      using fill_defaults_contains [of k default_class_weights "heap w a"]
      by (simp add: h dict_contains_def)
  qed
  have again: "fill_defaults default_class_weights (heap w1 a) = heap w1 a"
    by (simp add: h fill_defaults_idem)
  have cfg: "snd (fst (configure ex' (Some a) w1)) = heap w1 a"
    by (simp add: fst_configure or_empty_def again)
  have later: "heap (snd (configure ex' (Some a) w1)) a = heap w1 a"
    by (simp add: heap_configure again)
  show ?thesis
    using h other keys cfg later fill_defaults_appends [of default_class_weights "heap w a"]
    by (auto simp: heap_en_init heap_ru_init map_of_fill_defaults dict_contains_iff
        split: option.splits)
qed

lemma far_read_files: "files w = files w' \<Longrightarrow> far_read w f r = far_read w' f r"
  by (simp add: far_read_def)

lemma restore_facts:
  "fst (restore f w) = far_read w f ''tokenize_and_classify''"
  "files (snd (restore f w)) = files w"
  "log (snd (restore f w)) =
     (case far_read w f ''tokenize_and_classify'' of
        Inl e \<Rightarrow> log w
      | Inr g \<Rightarrow> log w @ [''ClassifyFst.fst was restored from '' @ f @ ''.''])"
  by (simp_all add: restore_def logging_info_def split: sum.splits)

lemma en_init_loads:
  assumes "far_file_of w cache_dir ''_en_itn.far'' = Inr (Some f)"
    and "\<not> ov" and "files w f \<noteq> None"
  shows "en_ClassifyFst_init t w cache_dir ov ex cwref =
           restore f (print (fill_defaults default_class_weights
                               (or_empty (map_option (heap w) cwref)))
                        (snd (configure ex cwref w)))"
proof -
  obtain cfg w1 where c: "configure ex cwref w = (cfg, w1)" by (cases "configure ex cwref w")
  have cfg: "cfg = (or_empty ex, fill_defaults default_class_weights (or_empty (map_option (heap w) cwref)))"
    using fst_configure [of ex cwref w] c by simp
  have f: "files (print x w1) = files w" for x
    using files_configure [of ex cwref w] c by (simp add: print_def)
  have ne: "f \<noteq> []" using assms(1) by (rule far_file_nonempty) simp
  have hit: "cache_hit (print x w1) ov (Some f)" for x
    using assms(2,3) ne by (simp add: cache_hit_def os_path_exists_def f)
  have ff: "far_file_of (print x w1) cache_dir n = far_file_of w cache_dir n" for x n
    by (rule far_file_of_files) (rule f)
  show ?thesis
    by (simp add: en_ClassifyFst_init_def c cfg Let_def ff assms(1) hit)
qed

lemma ru_init_loads:
  assumes "far_file_of w cache_dir ''_ru_itn.far'' = Inr (Some f)"
    and "\<not> ov" and "files w f \<noteq> None"
  shows "ru_ClassifyFst_init env w cache_dir ov ex cwref =
           restore f (snd (configure ex cwref w))"
proof -
  obtain cfg w1 where c: "configure ex cwref w = (cfg, w1)" by (cases "configure ex cwref w")
  obtain e cw where cfg: "cfg = (e, cw)" by (cases cfg)
  have f: "files w1 = files w"
    using files_configure [of ex cwref w] c by simp
  have ne: "f \<noteq> []" using assms(1) by (rule far_file_nonempty) simp
  have hit: "cache_hit w1 ov (Some f)"
    using assms(2,3) ne by (simp add: cache_hit_def os_path_exists_def f)
  have ff: "far_file_of w1 cache_dir n = far_file_of w cache_dir n" for n
    by (rule far_file_of_files) (rule f)
  show ?thesis
    by (simp add: ru_ClassifyFst_init_def c cfg ff assms(1) hit)
qed

lemma en_init_load_result:
  assumes "far_file_of w cache_dir ''_en_itn.far'' = Inr (Some f)"
    and "\<not> ov" and "files w f \<noteq> None"
  shows "fst (en_ClassifyFst_init t w cache_dir ov ex cwref) = far_read w f ''tokenize_and_classify''"
    and "files (snd (en_ClassifyFst_init t w cache_dir ov ex cwref)) = files w"
  unfolding en_init_loads [OF assms] restore_facts
  by (rule far_read_files) (simp_all add: print_def)

lemma ru_init_load_result:
  assumes "far_file_of w cache_dir ''_ru_itn.far'' = Inr (Some f)"
    and "\<not> ov" and "files w f \<noteq> None"
  shows "fst (ru_ClassifyFst_init env w cache_dir ov ex cwref) = far_read w f ''tokenize_and_classify''"
    and "files (snd (ru_ClassifyFst_init env w cache_dir ov ex cwref)) = files w"
  unfolding ru_init_loads [OF assms] restore_facts
  by (rule far_read_files) simp_all


lemma far_file_of_enabled:
  "builds w (Some d) ov name \<Longrightarrow> d \<noteq> ''None'' \<Longrightarrow>
   far_file_of w (Some d) n = Inr (Some (os_path_join d n))"
  by (auto simp: builds_def far_file_of_def split: option.splits sum.splits)

lemma tn_far_file_enabled:
  "builds w (Some d) ov name \<Longrightarrow> d \<noteq> ''None'' \<Longrightarrow> files w' = files w \<Longrightarrow>
   tn_far_file env w' ic det (Some d) = Some (os_path_join d (tn_far_name env ic det))"
  using far_file_of_enabled [of w d ov name "tn_far_name env ic det"]
    far_file_of_files [of w' w "Some d" "tn_far_name env ic det"]
  by (simp add: tn_far_file_def)

lemma strip_slashes_facts:
  "length (strip_slashes x) \<le> length x"
  "strip_slashes x \<noteq> [] \<Longrightarrow> last (strip_slashes x) \<noteq> CHR ''/''"
proof -
  show "length (strip_slashes x) \<le> length x"
    using length_dropWhile_le [of "\<lambda>c. c = CHR ''/''" "rev x"]
    by (simp add: strip_slashes_def)
  assume "strip_slashes x \<noteq> []"
  then have ne: "dropWhile (\<lambda>c. c = CHR ''/'') (rev x) \<noteq> []"
    by (simp add: strip_slashes_def)
  then have "hd (dropWhile (\<lambda>c. c = CHR ''/'') (rev x)) \<noteq> CHR ''/''"
    using hd_dropWhile [of "\<lambda>c. c = CHR ''/''" "rev x"] by simp
  with ne show "last (strip_slashes x) \<noteq> CHR ''/''"
    by (simp add: strip_slashes_def last_rev)
qed

lemma path_prefixes_short:
  "x \<in> set (path_prefixes pre s) \<Longrightarrow> length x \<le> length pre + length s"
  by (induction s arbitrary: pre) (fastforce split: if_splits)+

lemma ancestors_short:
  assumes "p \<in> set (ancestors d)"
  shows "length p \<le> length d" and "p \<noteq> []" and "last p \<noteq> CHR ''/''"
proof -
  from assms obtain x where x: "x \<in> set (path_prefixes [] d)" and p: "p = strip_slashes x"
    and ne: "p \<noteq> []"
    by (auto simp: ancestors_def)
  show "p \<noteq> []" by (rule ne)
  show "length p \<le> length d"
    using path_prefixes_short [OF x] strip_slashes_facts(1) [of x] p by simp
  show "last p \<noteq> CHR ''/''"
    using strip_slashes_facts(2) [of x] p ne by simp
qed

lemma join_not_ancestor: "d \<noteq> [] \<Longrightarrow> os_path_join d b \<notin> set (ancestors d)"
proof
  assume d: "d \<noteq> []" and a: "os_path_join d b \<in> set (ancestors d)"
  note short = ancestors_short [OF a]
  show False
  proof (cases "last d = CHR ''/''")
    case True
    with d short(1) have "os_path_join d b = d"
      by (simp add: os_path_join_def)
    with short(3) True show False by simp
  next
    case False
    with d short(1) show False
      by (simp add: os_path_join_def)
  qed
qed

lemma far_file_of_after_write:
  assumes "\<forall>p \<in> set (ancestors d). files w' p = files w p"
  shows "far_file_of w' (Some d) n = far_file_of w (Some d) n"
proof -
  have "os_makedirs w' d = os_makedirs w d"
    using assms by (simp add: os_makedirs_def)
  then show ?thesis
    by (simp add: far_file_of_def)
qed

lemma slot_directory:
  assumes "far_file_of w cd name = Inr (Some f)"
  obtains d where "cd = Some d" "d \<noteq> []" "d \<noteq> ''None''" "f = os_path_join d name"
  using assms
  by (auto simp: far_file_of_def os_makedirs_def split: option.splits if_splits)

lemma en_init_keeps_slot:
  assumes b: "builds w cache_dir ov ''_en_itn.far''"
    and slot: "far_file_of w cache_dir ''_en_itn.far'' = Inr (Some f)"
  shows "far_file_of (snd (en_ClassifyFst_init t w cache_dir ov ex cwref)) cache_dir n
           = far_file_of w cache_dir n"
proof -
  from slot obtain d where d: "cache_dir = Some d" "d \<noteq> []" "f = os_path_join d ''_en_itn.far''"
    by (rule slot_directory)
  have f: "f \<noteq> []" using slot by (rule far_file_nonempty) simp
  have "files (snd (en_ClassifyFst_init t w cache_dir ov ex cwref)) p = files w p"
    if "p \<in> set (ancestors d)" for p
  proof -
    have "p \<noteq> f" using that join_not_ancestor [OF d(2)] d(3) by auto
    then show ?thesis
      by (simp add: en_init_builds_world [OF b slot] files_save(1) [OF f] print_def)
  qed
  then show ?thesis
    unfolding d(1) by (intro far_file_of_after_write) simp
qed

lemma ru_init_keeps_slot:
  assumes b: "builds w cache_dir ov ''_ru_itn.far''"
    and slot: "far_file_of w cache_dir ''_ru_itn.far'' = Inr (Some f)"
  shows "far_file_of (snd (ru_ClassifyFst_init env w cache_dir ov ex cwref)) cache_dir n
           = far_file_of w cache_dir n"
proof -
  from slot obtain d where d: "cache_dir = Some d" "d \<noteq> []" "d \<noteq> ''None''"
      "f = os_path_join d ''_ru_itn.far''"
    by (rule slot_directory)
  have f: "f \<noteq> []" using slot by (rule far_file_nonempty) simp
  have b': "builds w (Some d) ov ''_ru_itn.far''" using b d(1) by simp
  have slot': "far_file_of w (Some d) ''_ru_itn.far'' = Inr (Some f)" using slot d(1) by simp
  have tn: "tn_far_file env
      (logging_info ''Creating ClassifyFst grammars. This might take some time...''
         (snd (configure ex cwref w)))
      ''cased'' False (Some d) = Some (os_path_join d (tn_far_name env ''cased'' False))"
    using b' d(3) by (rule tn_far_file_enabled) simp
  have "files (snd (ru_ClassifyFst_init env w (Some d) ov ex cwref)) p = files w p"
    if "p \<in> set (ancestors d)" for p
  proof -
    have "p \<noteq> f" "p \<noteq> os_path_join d (tn_far_name env ''cased'' False)"
      using that join_not_ancestor [OF d(2)] d(4) by auto
    then show ?thesis
      by (simp add: ru_init_builds_world [OF b' slot'] files_save(1) [OF f]
          tn_init_overwrite(2) tn cache_store_def generator_main_def)
  qed
  then show ?thesis
    unfolding d(1) by (intro far_file_of_after_write) simp
qed

lemma far_read_archive:
  "files w f = Some (FarArchive gs) \<Longrightarrow> map_of gs r = Some g \<Longrightarrow> far_read w f r = Inr g"
  by (simp add: far_read_def subscript_def)

lemma cache_slot:
  "files w ''cache'' = None \<Longrightarrow>
   far_file_of w (Some ''cache'') name = Inr (Some (''cache/'' @ name))"
  by (simp add: far_file_of_def os_makedirs_def ancestors_def strip_slashes_def os_path_join_def)

lemma example_slots:
  "far_file_of empty_world (Some ''cache'') ''_en_itn.far'' = Inr (Some ''cache/_en_itn.far'')"
  "far_file_of empty_world (Some ''cache'') ''_ru_itn.far'' = Inr (Some ''cache/_ru_itn.far'')"
  "far_file_of cached_world (Some ''cache'') ''_en_itn.far'' = Inr (Some ''cache/_en_itn.far'')"
  "far_file_of cached_world (Some ''cache'') ''_ru_itn.far'' = Inr (Some ''cache/_ru_itn.far'')"
  "far_file_of corrupt_world (Some ''cache'') ''_en_itn.far'' = Inr (Some ''cache/_en_itn.far'')"
  "far_file_of corrupt_world (Some ''cache'') ''_ru_itn.far'' = Inr (Some ''cache/_ru_itn.far'')"
  "far_file_of tn_cached_world (Some ''cache'') ''_ru_itn.far''
     = Inr (Some ''cache/_ru_itn.far'')"
  by (simp_all add: cache_slot empty_world_def cached_world_def corrupt_world_def
      tn_cached_world_def)

lemma example_builds:
  "builds empty_world (Some ''cache'') False ''_en_itn.far''"
  "builds empty_world (Some ''cache'') False ''_ru_itn.far''"
  "builds empty_world None False ''_en_itn.far''"
  "builds empty_world None False ''_ru_itn.far''"
proof -
  have none: "files empty_world p = None" for p
    by (simp add: empty_world_def)
  show "builds empty_world (Some ''cache'') False ''_en_itn.far''"
    "builds empty_world (Some ''cache'') False ''_ru_itn.far''"
    by (simp_all add: builds_def example_slots(1,2) cache_hit_def os_path_exists_def none)
  show "builds empty_world None False ''_en_itn.far''"
    "builds empty_world None False ''_ru_itn.far''"
    by (simp_all add: builds_def far_file_of_def cache_hit_def)
qed

lemma far_read_corrupt:
  "files w f = Some Undeserializable \<Longrightarrow> far_read w f r = Inl (FstIOError f)"
  by (simp add: far_read_def)

lemma log_print [simp]: "log (print d w) = log w"
  by (simp add: print_def)

lemma builds_when_missing_or_overwrite:
  "far_file_of w cache_dir name = Inr (Some f) \<Longrightarrow> overwrite_cache \<or> files w f = None \<Longrightarrow>
   builds w cache_dir overwrite_cache name"
  by (auto simp: builds_def cache_hit_def os_path_exists_def)

lemma en_corrupt_cache:
  assumes "far_file_of w cache_dir ''_en_itn.far'' = Inr (Some f)"
  shows "(far_file_of w cache_dir ''_en_itn.far'' = Inr (Some f) \<and> \<not> overwrite_cache
      \<and> files w f = Some Undeserializable \<longrightarrow>
        fst (en_ClassifyFst_init t w cache_dir overwrite_cache excluded_classes class_weights) = Inl (FstIOError f)
      \<and> files (snd (en_ClassifyFst_init t w cache_dir overwrite_cache excluded_classes class_weights)) = files w
      \<and> log (snd (en_ClassifyFst_init t w cache_dir overwrite_cache excluded_classes class_weights)) = log (snd (configure excluded_classes class_weights w)))
   \<and> (far_file_of w cache_dir ''_en_itn.far'' = Inr (Some f) \<and> files w f = None \<longrightarrow>
        (\<exists>g. fst (en_ClassifyFst_init t w cache_dir overwrite_cache excluded_classes class_weights) = Inr g
           \<and> files (snd (en_ClassifyFst_init t w cache_dir overwrite_cache excluded_classes class_weights)) f = Some (FarArchive [(''tokenize_and_classify'', g)])))
   \<and> (far_file_of w cache_dir ''_en_itn.far'' = Inr (Some f) \<and> overwrite_cache
      \<and> files w f = Some Undeserializable \<longrightarrow>
        (\<exists>g. fst (en_ClassifyFst_init t w cache_dir overwrite_cache excluded_classes class_weights) = Inr g
           \<and> files (snd (en_ClassifyFst_init t w cache_dir overwrite_cache excluded_classes class_weights)) f = Some (FarArchive [(''tokenize_and_classify'', g)])))"
proof (intro conjI impI; (elim conjE)?)
  assume c: "\<not> overwrite_cache" "files w f = Some Undeserializable"
  then have present: "files w f \<noteq> None" by simp
  note r = en_init_load_result [OF assms c(1) present, of t excluded_classes class_weights]
  show "fst (en_ClassifyFst_init t w cache_dir overwrite_cache excluded_classes class_weights)
          = Inl (FstIOError f)"
    by (simp add: r(1) far_read_corrupt c(2))
  show "files (snd (en_ClassifyFst_init t w cache_dir overwrite_cache excluded_classes
      class_weights)) = files w"
    by (rule r(2))
  have "far_read (print d (snd (configure excluded_classes class_weights w))) f r
          = Inl (FstIOError f)" for d r
    by (rule far_read_corrupt) (simp add: print_def c(2))
  then show "log (snd (en_ClassifyFst_init t w cache_dir overwrite_cache excluded_classes
      class_weights)) = log (snd (configure excluded_classes class_weights w))"
    by (simp add: en_init_loads [OF assms c(1) present] restore_facts)
next
  assume "files w f = None"
  then have b: "builds w cache_dir overwrite_cache ''_en_itn.far''"
    using assms by (simp add: builds_when_missing_or_overwrite)
  show "\<exists>g. fst (en_ClassifyFst_init t w cache_dir overwrite_cache excluded_classes class_weights)
               = Inr g
           \<and> files (snd (en_ClassifyFst_init t w cache_dir overwrite_cache excluded_classes
                            class_weights)) f
               = Some (FarArchive [(''tokenize_and_classify'', g)])"
    using en_init_builds [OF b] en_init_stores [OF b assms] by blast
next
  assume "overwrite_cache"
  then have b: "builds w cache_dir overwrite_cache ''_en_itn.far''"
    using assms by (simp add: builds_when_missing_or_overwrite)
  show "\<exists>g. fst (en_ClassifyFst_init t w cache_dir overwrite_cache excluded_classes class_weights)
               = Inr g
           \<and> files (snd (en_ClassifyFst_init t w cache_dir overwrite_cache excluded_classes
                            class_weights)) f
               = Some (FarArchive [(''tokenize_and_classify'', g)])"
    using en_init_builds [OF b] en_init_stores [OF b assms] by blast
qed

lemma ru_corrupt_cache:
  assumes "far_file_of w cache_dir ''_ru_itn.far'' = Inr (Some f)"
  shows "(far_file_of w cache_dir ''_ru_itn.far'' = Inr (Some f) \<and> \<not> overwrite_cache
      \<and> files w f = Some Undeserializable \<longrightarrow>
        fst (ru_ClassifyFst_init env w cache_dir overwrite_cache excluded_classes class_weights) = Inl (FstIOError f)
      \<and> files (snd (ru_ClassifyFst_init env w cache_dir overwrite_cache excluded_classes class_weights)) = files w
      \<and> log (snd (ru_ClassifyFst_init env w cache_dir overwrite_cache excluded_classes class_weights)) = log (snd (configure excluded_classes class_weights w)))
   \<and> (far_file_of w cache_dir ''_ru_itn.far'' = Inr (Some f) \<and> files w f = None \<longrightarrow>
        (\<exists>g. fst (ru_ClassifyFst_init env w cache_dir overwrite_cache excluded_classes class_weights) = Inr g
           \<and> files (snd (ru_ClassifyFst_init env w cache_dir overwrite_cache excluded_classes class_weights)) f = Some (FarArchive [(''tokenize_and_classify'', g)])))
   \<and> (far_file_of w cache_dir ''_ru_itn.far'' = Inr (Some f) \<and> overwrite_cache
      \<and> files w f = Some Undeserializable \<longrightarrow>
        (\<exists>g. fst (ru_ClassifyFst_init env w cache_dir overwrite_cache excluded_classes class_weights) = Inr g
           \<and> files (snd (ru_ClassifyFst_init env w cache_dir overwrite_cache excluded_classes class_weights)) f = Some (FarArchive [(''tokenize_and_classify'', g)])))"
proof (intro conjI impI; (elim conjE)?)
  assume c: "\<not> overwrite_cache" "files w f = Some Undeserializable"
  then have present: "files w f \<noteq> None" by simp
  note r = ru_init_load_result [OF assms c(1) present, of env excluded_classes class_weights]
  show "fst (ru_ClassifyFst_init env w cache_dir overwrite_cache excluded_classes class_weights)
          = Inl (FstIOError f)"
    by (simp add: r(1) far_read_corrupt c(2))
  show "files (snd (ru_ClassifyFst_init env w cache_dir overwrite_cache excluded_classes
      class_weights)) = files w"
    by (rule r(2))
  have "far_read (snd (configure excluded_classes class_weights w)) f r
          = Inl (FstIOError f)" for r
    by (rule far_read_corrupt) (simp add: c(2))
  then show "log (snd (ru_ClassifyFst_init env w cache_dir overwrite_cache excluded_classes
      class_weights)) = log (snd (configure excluded_classes class_weights w))"
    by (simp add: ru_init_loads [OF assms c(1) present] restore_facts)
next
  assume "files w f = None"
  then have b: "builds w cache_dir overwrite_cache ''_ru_itn.far''"
    using assms by (simp add: builds_when_missing_or_overwrite)
  show "\<exists>g. fst (ru_ClassifyFst_init env w cache_dir overwrite_cache excluded_classes class_weights)
               = Inr g
           \<and> files (snd (ru_ClassifyFst_init env w cache_dir overwrite_cache excluded_classes
                            class_weights)) f
               = Some (FarArchive [(''tokenize_and_classify'', g)])"
    using ru_init_builds [OF b] ru_init_stores [OF b assms] by blast
next
  assume "overwrite_cache"
  then have b: "builds w cache_dir overwrite_cache ''_ru_itn.far''"
    using assms by (simp add: builds_when_missing_or_overwrite)
  show "\<exists>g. fst (ru_ClassifyFst_init env w cache_dir overwrite_cache excluded_classes class_weights)
               = Inr g
           \<and> files (snd (ru_ClassifyFst_init env w cache_dir overwrite_cache excluded_classes
                            class_weights)) f
               = Some (FarArchive [(''tokenize_and_classify'', g)])"
    using ru_init_builds [OF b] ru_init_stores [OF b assms] by blast
qed

lemma os_path_join_inject: "os_path_join d a = os_path_join d b \<longleftrightarrow> a = b"
  by (simp add: os_path_join_def)

lemma files_cache_store:
  "files (cache_store (Some p) g w) p = Some (FarArchive [(''tokenize_and_classify'', g)])"
  by (simp add: cache_store_def generator_main_def)

lemma ru_init_rewrites_tn:
  assumes b: "builds w cache_dir ov ''_ru_itn.far''"
    and d: "cache_dir = Some d" "d \<noteq> ''None''"
    and n: "tn_far_name env ''cased'' False \<noteq> ''_ru_itn.far''"
  shows "files (snd (ru_ClassifyFst_init env w cache_dir ov ex cwref))
           (os_path_join d (tn_far_name env ''cased'' False))
         = Some (FarArchive [(''tokenize_and_classify'', tn_grammar env ''cased'' False)])"
proof -
  have b': "builds w (Some d) ov ''_ru_itn.far''"
    using b d(1) by simp
  have slot: "far_file_of w (Some d) ''_ru_itn.far'' = Inr (Some (os_path_join d ''_ru_itn.far''))"
    using b' d(2) by (rule far_file_of_enabled)
  have f: "os_path_join d ''_ru_itn.far'' \<noteq> []"
    using slot by (rule far_file_nonempty) simp
  have differ: "os_path_join d (tn_far_name env ''cased'' False) \<noteq> os_path_join d ''_ru_itn.far''"
    using n by (simp add: os_path_join_inject)
  have tn: "tn_far_file env
      (logging_info ''Creating ClassifyFst grammars. This might take some time...''
         (snd (configure ex cwref w)))
      ''cased'' False (Some d) = Some (os_path_join d (tn_far_name env ''cased'' False))"
    using b' d(2) by (rule tn_far_file_enabled) simp
  show ?thesis
    unfolding d(1) ru_init_builds_world [OF b' slot] tn_init_overwrite(2) tn
    using differ by (simp add: files_save(1) [OF f] files_cache_store)
qed













lemma en_init_fails:
  assumes "far_file_of w cache_dir ''_en_itn.far'' = Inl e"
  shows "fst (en_ClassifyFst_init t w cache_dir ov ex cwref) = Inl e"
proof -
  obtain cfg w1 where c: "configure ex cwref w = (cfg, w1)" by (cases "configure ex cwref w")
  obtain x cw where cfg: "cfg = (x, cw)" by (cases cfg)
  have f: "files (print d w1) = files w" for d
    using files_configure [of ex cwref w] c by (simp add: print_def)
  have ff: "far_file_of (print d w1) cache_dir n = far_file_of w cache_dir n" for d n
    by (rule far_file_of_files) (rule f)
  show ?thesis
    by (simp add: en_ClassifyFst_init_def c cfg Let_def ff assms)
qed

lemma ru_init_fails:
  assumes "far_file_of w cache_dir ''_ru_itn.far'' = Inl e"
  shows "fst (ru_ClassifyFst_init env w cache_dir ov ex cwref) = Inl e"
proof -
  obtain cfg w1 where c: "configure ex cwref w = (cfg, w1)" by (cases "configure ex cwref w")
  obtain x cw where cfg: "cfg = (x, cw)" by (cases cfg)
  have f: "files w1 = files w"
    using files_configure [of ex cwref w] c by simp
  have ff: "far_file_of w1 cache_dir n = far_file_of w cache_dir n" for n
    by (rule far_file_of_files) (rule f)
  show ?thesis
    by (simp add: ru_ClassifyFst_init_def c cfg ff assms)
qed

lemma makedirs_examples:
  "os_makedirs blocked_world ''cache'' = Some (OSError ''cache'')"
  "os_makedirs blocked_world ''cache/'' = Some (OSError ''cache/'')"
  "os_makedirs blocked_world ''cache/itn'' = Some (OSError ''cache/itn'')"
  "os_makedirs blocked_world ''other/cache'' = None"
  "os_makedirs empty_world [] = Some (OSError [])"
  "fst (en_ClassifyFst_init example_taggers blocked_world (Some ''cache'') False None None)
     = Inl (OSError ''cache'')"
  "fst (ru_ClassifyFst_init example_env blocked_world (Some ''cache/itn'') True None None)
     = Inl (OSError ''cache/itn'')"
proof -
  show a: "os_makedirs blocked_world ''cache'' = Some (OSError ''cache'')"
    and "os_makedirs blocked_world ''cache/'' = Some (OSError ''cache/'')"
    and b: "os_makedirs blocked_world ''cache/itn'' = Some (OSError ''cache/itn'')"
    and "os_makedirs blocked_world ''other/cache'' = None"
    and "os_makedirs empty_world [] = Some (OSError [])"
    by (simp_all add: os_makedirs_def ancestors_def strip_slashes_def blocked_world_def
        empty_world_def)
  show "fst (en_ClassifyFst_init example_taggers blocked_world (Some ''cache'') False None None)
     = Inl (OSError ''cache'')"
    by (rule en_init_fails) (simp add: far_file_of_def a)
  show "fst (ru_ClassifyFst_init example_env blocked_world (Some ''cache/itn'') True None None)
     = Inl (OSError ''cache/itn'')"
    by (rule ru_init_fails) (simp add: far_file_of_def b)
qed



section \<open>The claims\<close>

text \<open>
  C3. The exclusion filter: every class among the eleven whose name is mapped to
  \<^verbatim>\<open>True\<close> in \<^verbatim>\<open>excluded_classes\<close> has its automaton replaced by the empty-language
  automaton; an entry whose name is absent from \<^verbatim>\<open>excluded_classes\<close> or mapped to
  \<^verbatim>\<open>False\<close> is unchanged; no entry is added or reordered; and the operands of the
  top-level alternation are taken from the filtered dictionary.
\<close>
theorem exclusion_filter_empties_excluded_classes:
  "(\<forall>c \<in> set classes. map_of excluded c = Some True \<longrightarrow>
       map_of (exclusion_filter excluded EmptyFst (class_graphs_of t)) c = Some EmptyFst)
   \<and> (\<forall>c. map_of excluded c \<noteq> Some True \<longrightarrow>
       map_of (exclusion_filter excluded EmptyFst (class_graphs_of t)) c
         = map_of (class_graphs_of t) c)
   \<and> map fst (exclusion_filter excluded EmptyFst (class_graphs_of t)) = map fst (class_graphs_of t)
   \<and> (\<exists>c. build sentence t excluded (fill_defaults default_class_weights supplied)
             = Inr (sentence t c)
          \<and> map operand_graph (union_operands c)
             = map (map_of (exclusion_filter excluded EmptyFst (class_graphs_of t))) union_order)"
proof (intro conjI ballI allI impI)
  fix c
  assume "c \<in> set classes" and "map_of excluded c = Some True"
  then show "map_of (exclusion_filter excluded EmptyFst (class_graphs_of t)) c = Some EmptyFst"
    by (simp add: map_of_filtered filtered_graph_def dict_get_def)
next
  fix c
  assume "map_of excluded c \<noteq> Some True"
  then have "\<not> dict_get excluded c False"
    by (cases "map_of excluded c") (auto simp: dict_get_def)
  then show "map_of (exclusion_filter excluded EmptyFst (class_graphs_of t)) c
         = map_of (class_graphs_of t) c"
    by (simp add: exclusion_filter_def map_of_exclude_loop)
next
  show "map fst (exclusion_filter excluded EmptyFst (class_graphs_of t)) = map fst (class_graphs_of t)"
    by (simp add: exclusion_filter_def keys_exclude_loop)
next
  have "map operand_graph (union_operands (spec_classify (filtered_graph t excluded) (effective_weight supplied)))
      = map (map_of (exclusion_filter excluded EmptyFst (class_graphs_of t))) union_order"
    unfolding union_operands_spec_classify
    by (simp add: map_of_filtered union_order_def classes_def)
  then show "\<exists>c. build sentence t excluded (fill_defaults default_class_weights supplied)
             = Inr (sentence t c)
          \<and> map operand_graph (union_operands c)
             = map (map_of (exclusion_filter excluded EmptyFst (class_graphs_of t))) union_order"
    using build_refines by blast
qed


theorem exclusion_filter_empties_excluded_classes_witness:
  "''cardinal'' \<in> set classes
   \<and> map_of [(''cardinal'', True), (''date'', False)] ''cardinal'' = Some True
   \<and> map_of [(''cardinal'', True), (''date'', False)] ''date'' \<noteq> Some True
   \<and> map_of (exclusion_filter [(''cardinal'', True), (''date'', False)] EmptyFst
               (class_graphs_of example_taggers)) ''cardinal'' = Some EmptyFst
   \<and> map_of (exclusion_filter [(''cardinal'', True), (''date'', False)] EmptyFst
               (class_graphs_of example_taggers)) ''date'' = Some (Compiled ''date'')"
proof -
  have known: "''cardinal'' \<in> set classes"
    by (simp add: classes_def)
  have excluded: "map_of [(''cardinal'', True), (''date'', False)] ''cardinal'' = Some True"
    by simp
  have kept: "map_of [(''cardinal'', True), (''date'', False)] ''date'' \<noteq> Some True"
    by simp
  have graph: "map_of (class_graphs_of example_taggers) ''date'' = Some (Compiled ''date'')"
    by (simp add: class_graphs_of_def example_taggers_def)
  from exclusion_filter_empties_excluded_classes
         [of "[(''cardinal'', True), (''date'', False)]" example_taggers en_graph "[]"]
       known excluded kept graph
  show ?thesis by metis
qed

text \<open>
  C4. On the build path, each of the eleven operands of the top-level alternation is
  the (filtered) automaton of its class shifted by the weight of that class: the entry
  of the caller's \<^verbatim>\<open>class_weights\<close> when there is one, and otherwise the default
  (whitelist 1.01, date 1.09, word 100, every other class 1.1). Both constructors.
\<close>
theorem class_weight_is_entry_or_default:
  "(builds w cache_dir overwrite_cache ''_en_itn.far'' \<longrightarrow>
      (\<exists>c. fst (en_ClassifyFst_init t w cache_dir overwrite_cache excluded_classes class_weights)
              = Inr (en_graph t c)
         \<and> union_operands c =
             map (\<lambda>(k, d). AddWeight (filtered_graph t (or_empty excluded_classes) k)
                              (dict_get (or_empty (map_option (heap w) class_weights)) k d))
               [(''whitelist'', 1.01), (''time'', 1.1), (''date'', 1.09), (''decimal'', 1.1),
                (''measure'', 1.1), (''cardinal'', 1.1), (''ordinal'', 1.1), (''money'', 1.1),
                (''telephone'', 1.1), (''electronic'', 1.1), (''word'', 100)]))
   \<and> (builds w cache_dir overwrite_cache ''_ru_itn.far'' \<longrightarrow>
      (\<exists>c. fst (ru_ClassifyFst_init env w cache_dir overwrite_cache excluded_classes class_weights)
              = Inr (ru_graph (itn_taggers env (tn_grammar env ''cased'' False)) c)
         \<and> union_operands c =
             map (\<lambda>(k, d). AddWeight
                              (filtered_graph (itn_taggers env (tn_grammar env ''cased'' False))
                                 (or_empty excluded_classes) k)
                              (dict_get (or_empty (map_option (heap w) class_weights)) k d))
               [(''whitelist'', 1.01), (''time'', 1.1), (''date'', 1.09), (''decimal'', 1.1),
                (''measure'', 1.1), (''cardinal'', 1.1), (''ordinal'', 1.1), (''money'', 1.1),
                (''telephone'', 1.1), (''electronic'', 1.1), (''word'', 100)]))"
proof -
  have ops: "union_operands (spec_classify (filtered_graph u ex) (effective_weight supplied)) =
             map (\<lambda>(k, d). AddWeight (filtered_graph u ex k) (dict_get supplied k d))
               [(''whitelist'', 1.01), (''time'', 1.1), (''date'', 1.09), (''decimal'', 1.1),
                (''measure'', 1.1), (''cardinal'', 1.1), (''ordinal'', 1.1), (''money'', 1.1),
                (''telephone'', 1.1), (''electronic'', 1.1), (''word'', 100)]"
    for u ex supplied
    unfolding union_operands_spec_classify
    by (simp add: union_order_def effective_weight_def default_table_values)
  show ?thesis
    using en_init_builds [of w cache_dir overwrite_cache t excluded_classes class_weights]
      ru_init_builds [of w cache_dir overwrite_cache env excluded_classes class_weights]
      ops
    by blast
qed

theorem class_weight_is_entry_or_default_witness:
  "builds (empty_world\<lparr>heap := (\<lambda>a. [(''date'', 2)])\<rparr>) None False ''_en_itn.far''
   \<and> (\<exists>c. fst (en_ClassifyFst_init example_taggers (empty_world\<lparr>heap := (\<lambda>a. [(''date'', 2)])\<rparr>)
                  None False None (Some 0))
              = Inr (en_graph example_taggers c)
         \<and> union_operands c =
             [AddWeight (Compiled ''whitelist'') 1.01, AddWeight (Compiled ''time'') 1.1,
              AddWeight (Compiled ''date'') 2, AddWeight (Compiled ''decimal'') 1.1,
              AddWeight (Compiled ''measure'') 1.1, AddWeight (Compiled ''cardinal'') 1.1,
              AddWeight (Compiled ''ordinal'') 1.1, AddWeight (Compiled ''money'') 1.1,
              AddWeight (Compiled ''telephone'') 1.1, AddWeight (Compiled ''electronic'') 1.1,
              AddWeight (Compiled ''word'') 100])"
proof -
  have b: "builds (empty_world\<lparr>heap := (\<lambda>a. [(''date'', 2)])\<rparr>) None False ''_en_itn.far''"
    by (simp add: builds_def far_file_of_def cache_hit_def)
  from class_weight_is_entry_or_default
         [of "empty_world\<lparr>heap := (\<lambda>a. [(''date'', 2)])\<rparr>" None False example_taggers None "Some 0"]
       b
  show ?thesis
    by (simp add: or_empty_def filtered_graph_def dict_get_def class_graphs_of_def
        example_taggers_def)
qed

text \<open>
  C2. On the build path, the top-level alternation has exactly eleven operands, in the
  order whitelist, time, date, decimal, measure, cardinal, ordinal, money, telephone,
  electronic, word, each the source's \<^verbatim>\<open>add_weight(class_graphs[c], class_weights[c])\<close>.
  With the classify pass as the specification words it, an operand that accepts the
  span at the minimum total weight and has no operand of that weight before it in
  this order is the one selected: among operands of exactly equal weight the
  earlier-listed class wins. Both constructors.
\<close>
theorem union_enumeration_order_breaks_ties:
  "(builds w cache_dir overwrite_cache ''_en_itn.far'' \<longrightarrow>
      (\<exists>c. fst (en_ClassifyFst_init t w cache_dir overwrite_cache excluded_classes class_weights)
              = Inr (en_graph t c)
         \<and> map Inr (union_operands c) =
             map (shifted (exclusion_filter (or_empty excluded_classes) EmptyFst (class_graphs_of t))
                    (fill_defaults default_class_weights
                       (or_empty (map_option (heap w) class_weights))))
               [''whitelist'', ''time'', ''date'', ''decimal'', ''measure'', ''cardinal'',
                ''ordinal'', ''money'', ''telephone'', ''electronic'', ''word'']
         \<and> (\<forall>cost i x.
               i < length (union_operands c) \<and> cost (union_operands c ! i) = Some x
               \<and> (\<forall>g \<in> set (union_operands c). \<forall>y. cost g = Some y \<longrightarrow> x \<le> y)
               \<and> (\<forall>k<i. cost (union_operands c ! k) \<noteq> Some x)
               \<longrightarrow> shortest_path (map cost (union_operands c)) = Some (i, x))))
   \<and> (builds w cache_dir overwrite_cache ''_ru_itn.far'' \<longrightarrow>
      (\<exists>c. fst (ru_ClassifyFst_init env w cache_dir overwrite_cache excluded_classes class_weights)
              = Inr (ru_graph (itn_taggers env (tn_grammar env ''cased'' False)) c)
         \<and> map Inr (union_operands c) =
             map (shifted (exclusion_filter (or_empty excluded_classes) EmptyFst
                             (class_graphs_of (itn_taggers env (tn_grammar env ''cased'' False))))
                    (fill_defaults default_class_weights
                       (or_empty (map_option (heap w) class_weights))))
               [''whitelist'', ''time'', ''date'', ''decimal'', ''measure'', ''cardinal'',
                ''ordinal'', ''money'', ''telephone'', ''electronic'', ''word'']
         \<and> (\<forall>cost i x.
               i < length (union_operands c) \<and> cost (union_operands c ! i) = Some x
               \<and> (\<forall>g \<in> set (union_operands c). \<forall>y. cost g = Some y \<longrightarrow> x \<le> y)
               \<and> (\<forall>k<i. cost (union_operands c ! k) \<noteq> Some x)
               \<longrightarrow> shortest_path (map cost (union_operands c)) = Some (i, x))))"
proof (intro conjI impI)
  assume b: "builds w cache_dir overwrite_cache ''_en_itn.far''"
  show "\<exists>c. fst (en_ClassifyFst_init t w cache_dir overwrite_cache excluded_classes class_weights)
              = Inr (en_graph t c)
         \<and> map Inr (union_operands c) =
             map (shifted (exclusion_filter (or_empty excluded_classes) EmptyFst (class_graphs_of t))
                    (fill_defaults default_class_weights
                       (or_empty (map_option (heap w) class_weights))))
               [''whitelist'', ''time'', ''date'', ''decimal'', ''measure'', ''cardinal'',
                ''ordinal'', ''money'', ''telephone'', ''electronic'', ''word'']
         \<and> (\<forall>cost i x.
               i < length (union_operands c) \<and> cost (union_operands c ! i) = Some x
               \<and> (\<forall>g \<in> set (union_operands c). \<forall>y. cost g = Some y \<longrightarrow> x \<le> y)
               \<and> (\<forall>k<i. cost (union_operands c ! k) \<noteq> Some x)
               \<longrightarrow> shortest_path (map cost (union_operands c)) = Some (i, x))"
    by (intro exI conjI allI impI, rule en_init_builds [OF b], rule operands_are_shifted,
        rule first_minimum_wins) simp_all
next
  assume b: "builds w cache_dir overwrite_cache ''_ru_itn.far''"
  show "\<exists>c. fst (ru_ClassifyFst_init env w cache_dir overwrite_cache excluded_classes class_weights)
              = Inr (ru_graph (itn_taggers env (tn_grammar env ''cased'' False)) c)
         \<and> map Inr (union_operands c) =
             map (shifted (exclusion_filter (or_empty excluded_classes) EmptyFst
                             (class_graphs_of (itn_taggers env (tn_grammar env ''cased'' False))))
                    (fill_defaults default_class_weights
                       (or_empty (map_option (heap w) class_weights))))
               [''whitelist'', ''time'', ''date'', ''decimal'', ''measure'', ''cardinal'',
                ''ordinal'', ''money'', ''telephone'', ''electronic'', ''word'']
         \<and> (\<forall>cost i x.
               i < length (union_operands c) \<and> cost (union_operands c ! i) = Some x
               \<and> (\<forall>g \<in> set (union_operands c). \<forall>y. cost g = Some y \<longrightarrow> x \<le> y)
               \<and> (\<forall>k<i. cost (union_operands c ! k) \<noteq> Some x)
               \<longrightarrow> shortest_path (map cost (union_operands c)) = Some (i, x))"
    by (intro exI conjI allI impI, rule ru_init_builds [OF b], rule operands_are_shifted,
        rule first_minimum_wins) simp_all
qed


theorem union_enumeration_order_breaks_ties_witness:
  "builds empty_world None False ''_en_itn.far''
   \<and> (\<exists>c. fst (en_ClassifyFst_init example_taggers empty_world None False None None)
              = Inr (en_graph example_taggers c)
         \<and> union_operands c ! 1 = AddWeight (Compiled ''time'') 1.1
         \<and> union_operands c ! 5 = AddWeight (Compiled ''cardinal'') 1.1
         \<and> example_cost (union_operands c ! 1) = Some 3
         \<and> example_cost (union_operands c ! 5) = Some 3
         \<and> shortest_path (map example_cost (union_operands c)) = Some (1, 3))"
proof -
  have b: "builds empty_world None False ''_en_itn.far''"
    by (simp add: builds_def far_file_of_def cache_hit_def)
  from union_enumeration_order_breaks_ties
         [of empty_world None False example_taggers None None] b
  obtain c where
    r: "fst (en_ClassifyFst_init example_taggers empty_world None False None None)
          = Inr (en_graph example_taggers c)"
    and ops: "map Inr (union_operands c) =
             map (shifted (exclusion_filter (or_empty None) EmptyFst (class_graphs_of example_taggers))
                    (fill_defaults default_class_weights
                       (or_empty (map_option (heap empty_world) None))))
               [''whitelist'', ''time'', ''date'', ''decimal'', ''measure'', ''cardinal'',
                ''ordinal'', ''money'', ''telephone'', ''electronic'', ''word'']"
    and tie: "\<forall>cost i x.
               i < length (union_operands c) \<and> cost (union_operands c ! i) = Some x
               \<and> (\<forall>g \<in> set (union_operands c). \<forall>y. cost g = Some y \<longrightarrow> x \<le> y)
               \<and> (\<forall>k<i. cost (union_operands c ! k) \<noteq> Some x)
               \<longrightarrow> shortest_path (map cost (union_operands c)) = Some (i, x)"
    by blast
  have "map Inr (union_operands c) =
        map (Inr :: Fst \<Rightarrow> error + Fst)
          [AddWeight (Compiled ''whitelist'') 1.01, AddWeight (Compiled ''time'') 1.1,
           AddWeight (Compiled ''date'') 1.09, AddWeight (Compiled ''decimal'') 1.1,
           AddWeight (Compiled ''measure'') 1.1, AddWeight (Compiled ''cardinal'') 1.1,
           AddWeight (Compiled ''ordinal'') 1.1, AddWeight (Compiled ''money'') 1.1,
           AddWeight (Compiled ''telephone'') 1.1, AddWeight (Compiled ''electronic'') 1.1,
           AddWeight (Compiled ''word'') 100]"
    unfolding ops
    by (simp add: shifted_refines classes_def)
       (simp add: filtered_graph_def effective_weight_def default_table_def or_empty_def
          dict_get_def class_graphs_of_def example_taggers_def)
  then have operands: "union_operands c =
          [AddWeight (Compiled ''whitelist'') 1.01, AddWeight (Compiled ''time'') 1.1,
           AddWeight (Compiled ''date'') 1.09, AddWeight (Compiled ''decimal'') 1.1,
           AddWeight (Compiled ''measure'') 1.1, AddWeight (Compiled ''cardinal'') 1.1,
           AddWeight (Compiled ''ordinal'') 1.1, AddWeight (Compiled ''money'') 1.1,
           AddWeight (Compiled ''telephone'') 1.1, AddWeight (Compiled ''electronic'') 1.1,
           AddWeight (Compiled ''word'') 100]"
    by (rule map_injective) simp
  have hyp: "(1::nat) < length (union_operands c) \<and> example_cost (union_operands c ! 1) = Some 3
     \<and> (\<forall>g \<in> set (union_operands c). \<forall>y. example_cost g = Some y \<longrightarrow> 3 \<le> y)
     \<and> (\<forall>k<1. example_cost (union_operands c ! k) \<noteq> Some 3)"
    unfolding operands by (simp add: example_cost_def)
  from tie hyp have "shortest_path (map example_cost (union_operands c)) = Some (1, 3)"
    by blast
  moreover have "union_operands c ! 1 = AddWeight (Compiled ''time'') 1.1"
      "union_operands c ! 5 = AddWeight (Compiled ''cardinal'') 1.1"
      "example_cost (union_operands c ! 1) = Some 3"
      "example_cost (union_operands c ! 5) = Some 3"
    unfolding operands by (simp_all add: example_cost_def)
  ultimately show ?thesis using b r by blast
qed

text \<open>
  C8. On the build path the grammar is assembled as follows, with \<open>c\<close> the alternation
  \<^verbatim>\<open>classify\<close> and \<open>p\<close> the tagged punctuation \<^verbatim>\<open>punct\<close>:
  \<^verbatim>\<open>token = insert("tokens { ") + classify + insert(" }")\<close>;
  \<^verbatim>\<open>token_plus_punct = closure(punct + insert(" ")) + token + closure(insert(" ") + punct)\<close>;
  the sentence is \<^verbatim>\<open>delete_space\<close>, then \<^verbatim>\<open>token_plus_punct\<close> followed by the closure of
  (\<^verbatim>\<open>delete_extra_space\<close> followed by \<^verbatim>\<open>token_plus_punct\<close>), then \<^verbatim>\<open>delete_space\<close>, where
  Russian shifts the separator by 1.1 and English leaves it unshifted. The
  constructor returns this grammar optimized, and when there is a cache slot the
  archive written there holds the same optimized grammar.
\<close>
theorem sentence_grammar_assembly:
  "(builds w cache_dir overwrite_cache ''_en_itn.far'' \<longrightarrow>
      (\<exists>c p tok tpp g.
         classify (exclusion_filter (or_empty excluded_classes) EmptyFst (class_graphs_of t))
           (fill_defaults default_class_weights (or_empty (map_option (heap w) class_weights)))
           = Inr c
       \<and> p = ConcatFst (ConcatFst (Insert ''tokens { '') (AddWeight (punct_graph t) 1.1))
                (Insert '' }'')
       \<and> tok = ConcatFst (ConcatFst (Insert ''tokens { '') c) (Insert '' }'')
       \<and> tpp = ConcatFst (ConcatFst (ClosureFst (ConcatFst p (Insert '' ''))) tok)
                  (ClosureFst (ConcatFst (Insert '' '') p))
       \<and> g = ConcatFst
               (ConcatFst (delete_space t)
                  (ConcatFst tpp (ClosureFst (ConcatFst (delete_extra_space t) tpp))))
               (delete_space t)
       \<and> fst (en_ClassifyFst_init t w cache_dir overwrite_cache excluded_classes class_weights)
           = Inr (OptimizeFst g)
       \<and> (\<forall>f. far_file_of w cache_dir ''_en_itn.far'' = Inr (Some f) \<longrightarrow>
              files (snd (en_ClassifyFst_init t w cache_dir overwrite_cache excluded_classes
                            class_weights)) f
                = Some (FarArchive [(''tokenize_and_classify'', OptimizeFst g)]))))
   \<and> (builds w cache_dir overwrite_cache ''_ru_itn.far'' \<longrightarrow>
      (\<exists>u c p tok tpp g.
         u = itn_taggers env (tn_grammar env ''cased'' False)
       \<and> classify (exclusion_filter (or_empty excluded_classes) EmptyFst (class_graphs_of u))
           (fill_defaults default_class_weights (or_empty (map_option (heap w) class_weights)))
           = Inr c
       \<and> p = ConcatFst (ConcatFst (Insert ''tokens { '') (AddWeight (punct_graph u) 1.1))
                (Insert '' }'')
       \<and> tok = ConcatFst (ConcatFst (Insert ''tokens { '') c) (Insert '' }'')
       \<and> tpp = ConcatFst (ConcatFst (ClosureFst (ConcatFst p (Insert '' ''))) tok)
                  (ClosureFst (ConcatFst (Insert '' '') p))
       \<and> g = ConcatFst
               (ConcatFst (delete_space u)
                  (ConcatFst tpp
                     (ClosureFst (ConcatFst (AddWeight (delete_extra_space u) 1.1) tpp))))
               (delete_space u)
       \<and> fst (ru_ClassifyFst_init env w cache_dir overwrite_cache excluded_classes class_weights)
           = Inr (OptimizeFst g)
       \<and> (\<forall>f. far_file_of w cache_dir ''_ru_itn.far'' = Inr (Some f) \<longrightarrow>
              files (snd (ru_ClassifyFst_init env w cache_dir overwrite_cache excluded_classes
                            class_weights)) f
                = Some (FarArchive [(''tokenize_and_classify'', OptimizeFst g)]))))"
proof (intro conjI impI)
  assume b: "builds w cache_dir overwrite_cache ''_en_itn.far''"
  have shape: "en_graph t c =
      OptimizeFst (ConcatFst
               (ConcatFst (delete_space t)
                  (ConcatFst (token_plus_punct t c)
                     (ClosureFst (ConcatFst (delete_extra_space t) (token_plus_punct t c)))))
               (delete_space t))" for c
    by (simp add: en_graph_def Let_def)
  show "\<exists>c p tok tpp g.
         classify (exclusion_filter (or_empty excluded_classes) EmptyFst (class_graphs_of t))
           (fill_defaults default_class_weights (or_empty (map_option (heap w) class_weights)))
           = Inr c
       \<and> p = ConcatFst (ConcatFst (Insert ''tokens { '') (AddWeight (punct_graph t) 1.1))
                (Insert '' }'')
       \<and> tok = ConcatFst (ConcatFst (Insert ''tokens { '') c) (Insert '' }'')
       \<and> tpp = ConcatFst (ConcatFst (ClosureFst (ConcatFst p (Insert '' ''))) tok)
                  (ClosureFst (ConcatFst (Insert '' '') p))
       \<and> g = ConcatFst
               (ConcatFst (delete_space t)
                  (ConcatFst tpp (ClosureFst (ConcatFst (delete_extra_space t) tpp))))
               (delete_space t)
       \<and> fst (en_ClassifyFst_init t w cache_dir overwrite_cache excluded_classes class_weights)
           = Inr (OptimizeFst g)
       \<and> (\<forall>f. far_file_of w cache_dir ''_en_itn.far'' = Inr (Some f) \<longrightarrow>
              files (snd (en_ClassifyFst_init t w cache_dir overwrite_cache excluded_classes
                            class_weights)) f
                = Some (FarArchive [(''tokenize_and_classify'', OptimizeFst g)]))"
    apply (rule exI [of _ "spec_classify (filtered_graph t (or_empty excluded_classes))
                  (effective_weight (or_empty (map_option (heap w) class_weights)))"])
    apply (rule exI [of _ "punct t"])
    apply (intro exI conjI allI impI)
          apply (rule classify_refines)
         apply (simp add: punct_def)
        apply (rule refl)
       apply (rule refl)
      apply (rule refl)
     apply (simp add: en_init_builds [OF b] shape token_plus_punct_def token_def)
    apply (simp add: en_init_stores [OF b] shape token_plus_punct_def token_def)
    done
next
  assume b: "builds w cache_dir overwrite_cache ''_ru_itn.far''"
  have shape: "ru_graph u c =
      OptimizeFst (ConcatFst
               (ConcatFst (delete_space u)
                  (ConcatFst (token_plus_punct u c)
                     (ClosureFst (ConcatFst (AddWeight (delete_extra_space u) 1.1)
                                    (token_plus_punct u c)))))
               (delete_space u))" for u c
    by (simp add: ru_graph_def Let_def)
  show "\<exists>u c p tok tpp g.
         u = itn_taggers env (tn_grammar env ''cased'' False)
       \<and> classify (exclusion_filter (or_empty excluded_classes) EmptyFst (class_graphs_of u))
           (fill_defaults default_class_weights (or_empty (map_option (heap w) class_weights)))
           = Inr c
       \<and> p = ConcatFst (ConcatFst (Insert ''tokens { '') (AddWeight (punct_graph u) 1.1))
                (Insert '' }'')
       \<and> tok = ConcatFst (ConcatFst (Insert ''tokens { '') c) (Insert '' }'')
       \<and> tpp = ConcatFst (ConcatFst (ClosureFst (ConcatFst p (Insert '' ''))) tok)
                  (ClosureFst (ConcatFst (Insert '' '') p))
       \<and> g = ConcatFst
               (ConcatFst (delete_space u)
                  (ConcatFst tpp
                     (ClosureFst (ConcatFst (AddWeight (delete_extra_space u) 1.1) tpp))))
               (delete_space u)
       \<and> fst (ru_ClassifyFst_init env w cache_dir overwrite_cache excluded_classes class_weights)
           = Inr (OptimizeFst g)
       \<and> (\<forall>f. far_file_of w cache_dir ''_ru_itn.far'' = Inr (Some f) \<longrightarrow>
              files (snd (ru_ClassifyFst_init env w cache_dir overwrite_cache excluded_classes
                            class_weights)) f
                = Some (FarArchive [(''tokenize_and_classify'', OptimizeFst g)]))"
    apply (rule exI [of _ "itn_taggers env (tn_grammar env ''cased'' False)"])
    apply (rule exI [of _ "spec_classify
                  (filtered_graph (itn_taggers env (tn_grammar env ''cased'' False))
                     (or_empty excluded_classes))
                  (effective_weight (or_empty (map_option (heap w) class_weights)))"])
    apply (rule exI [of _ "punct (itn_taggers env (tn_grammar env ''cased'' False))"])
    apply (intro exI conjI allI impI)
           apply (rule refl)
          apply (rule classify_refines)
         apply (simp add: punct_def)
        apply (rule refl)
       apply (rule refl)
      apply (rule refl)
     apply (simp add: ru_init_builds [OF b] shape token_plus_punct_def token_def)
    apply (simp add: ru_init_stores [OF b] shape token_plus_punct_def token_def)
    done
qed


theorem sentence_grammar_assembly_witness:
  "builds empty_world (Some ''cache'') False ''_en_itn.far''
   \<and> far_file_of empty_world (Some ''cache'') ''_en_itn.far'' = Inr (Some ''cache/_en_itn.far'')
   \<and> (\<exists>g. fst (en_ClassifyFst_init example_taggers empty_world (Some ''cache'') False None None)
              = Inr (OptimizeFst g)
          \<and> files (snd (en_ClassifyFst_init example_taggers empty_world (Some ''cache'') False
                          None None)) ''cache/_en_itn.far''
              = Some (FarArchive [(''tokenize_and_classify'', OptimizeFst g)]))
   \<and> builds empty_world (Some ''cache'') False ''_ru_itn.far''
   \<and> far_file_of empty_world (Some ''cache'') ''_ru_itn.far'' = Inr (Some ''cache/_ru_itn.far'')
   \<and> (\<exists>g. fst (ru_ClassifyFst_init example_env empty_world (Some ''cache'') False None None)
              = Inr (OptimizeFst g)
          \<and> files (snd (ru_ClassifyFst_init example_env empty_world (Some ''cache'') False
                          None None)) ''cache/_ru_itn.far''
              = Some (FarArchive [(''tokenize_and_classify'', OptimizeFst g)]))"
proof -
  have en_slot: "far_file_of empty_world (Some ''cache'') ''_en_itn.far'' = Inr (Some ''cache/_en_itn.far'')"
    and ru_slot: "far_file_of empty_world (Some ''cache'') ''_ru_itn.far'' = Inr (Some ''cache/_ru_itn.far'')"
    by (rule example_slots)+
  have en_b: "builds empty_world (Some ''cache'') False ''_en_itn.far''"
    and ru_b: "builds empty_world (Some ''cache'') False ''_ru_itn.far''"
    by (rule example_builds)+
  from sentence_grammar_assembly
         [of empty_world "Some ''cache''" False None example_taggers None example_env]
       en_slot ru_slot en_b ru_b
  show ?thesis by metis
qed

text \<open>
  C5, as amended. The weight by which the punctuation grammar is shifted in the tagged
  \<^verbatim>\<open>punct\<close> token is the constant 1.1 of the source; \<^verbatim>\<open>'punctuation'\<close> is not one of
  the classes and an entry for it in \<^verbatim>\<open>class_weights\<close> is never read: on the build
  path the grammar returned is the same whatever that entry is. Both constructors.
  The claim as stated (an entry \<open>w\<close> for \<^verbatim>\<open>'punctuation'\<close> shifts the punctuation grammar
  by \<open>w\<close>) fails for the entry 5, where every shift of the punctuation automaton in
  the built grammar is still 1.1.
\<close>
theorem punctuation_shift_is_constant:
  "shifts_of (punct_graph t) (punct t) = [1.1]
   \<and> (builds w cache_dir overwrite_cache ''_en_itn.far'' \<longrightarrow>
        (\<exists>c. fst (en_ClassifyFst_init t w cache_dir overwrite_cache excluded_classes (Some a))
                = Inr (en_graph t c)
           \<and> (\<forall>x. fst (en_ClassifyFst_init t
                          (w\<lparr>heap := (heap w)(a := AList.update ''punctuation'' x (heap w a))\<rparr>)
                          cache_dir overwrite_cache excluded_classes (Some a))
                      = Inr (en_graph t c))))
   \<and> (builds w cache_dir overwrite_cache ''_ru_itn.far'' \<longrightarrow>
        (\<exists>c. fst (ru_ClassifyFst_init env w cache_dir overwrite_cache excluded_classes (Some a))
                = Inr (ru_graph (itn_taggers env (tn_grammar env ''cased'' False)) c)
           \<and> (\<forall>x. fst (ru_ClassifyFst_init env
                          (w\<lparr>heap := (heap w)(a := AList.update ''punctuation'' x (heap w a))\<rparr>)
                          cache_dir overwrite_cache excluded_classes (Some a))
                      = Inr (ru_graph (itn_taggers env (tn_grammar env ''cased'' False)) c))))"
proof (intro conjI impI)
  show "shifts_of (punct_graph t) (punct t) = [1.1]"
    by (rule shifts_of_punct)
next
  assume b: "builds w cache_dir overwrite_cache ''_en_itn.far''"
  have same: "spec_classify G (effective_weight (AList.update ''punctuation'' x d))
            = spec_classify G (effective_weight d)" for G x d
    by (rule spec_classify_cong) (auto simp: union_order_def effective_weight_update_other)
  have b': "builds (w\<lparr>heap := h\<rparr>) cache_dir overwrite_cache ''_en_itn.far''" for h
    using b builds_files [of "w\<lparr>heap := h\<rparr>" w] by simp
  show "\<exists>c. fst (en_ClassifyFst_init t w cache_dir overwrite_cache excluded_classes (Some a))
                = Inr (en_graph t c)
           \<and> (\<forall>x. fst (en_ClassifyFst_init t
                          (w\<lparr>heap := (heap w)(a := AList.update ''punctuation'' x (heap w a))\<rparr>)
                          cache_dir overwrite_cache excluded_classes (Some a))
                      = Inr (en_graph t c))"
    by (rule exI, rule conjI, rule en_init_builds [OF b])
       (simp add: en_init_builds [OF b'] or_empty_def same)
next
  assume b: "builds w cache_dir overwrite_cache ''_ru_itn.far''"
  have same: "spec_classify G (effective_weight (AList.update ''punctuation'' x d))
            = spec_classify G (effective_weight d)" for G x d
    by (rule spec_classify_cong) (auto simp: union_order_def effective_weight_update_other)
  have b': "builds (w\<lparr>heap := h\<rparr>) cache_dir overwrite_cache ''_ru_itn.far''" for h
    using b builds_files [of "w\<lparr>heap := h\<rparr>" w] by simp
  show "\<exists>c. fst (ru_ClassifyFst_init env w cache_dir overwrite_cache excluded_classes (Some a))
                = Inr (ru_graph (itn_taggers env (tn_grammar env ''cased'' False)) c)
           \<and> (\<forall>x. fst (ru_ClassifyFst_init env
                          (w\<lparr>heap := (heap w)(a := AList.update ''punctuation'' x (heap w a))\<rparr>)
                          cache_dir overwrite_cache excluded_classes (Some a))
                      = Inr (ru_graph (itn_taggers env (tn_grammar env ''cased'' False)) c))"
    by (rule exI, rule conjI, rule ru_init_builds [OF b])
       (simp add: ru_init_builds [OF b'] or_empty_def same)
qed

theorem punctuation_shift_is_constant_witness:
  "builds empty_world None False ''_en_itn.far''
   \<and> builds empty_world None False ''_ru_itn.far''
   \<and> fst (en_ClassifyFst_init example_taggers
            (empty_world\<lparr>heap := (heap empty_world)(0 := AList.update ''punctuation'' 5 (heap empty_world 0))\<rparr>)
            None False None (Some 0))
     = fst (en_ClassifyFst_init example_taggers empty_world None False None (Some 0))
   \<and> fst (ru_ClassifyFst_init example_env
            (empty_world\<lparr>heap := (heap empty_world)(0 := AList.update ''punctuation'' 5 (heap empty_world 0))\<rparr>)
            None False None (Some 0))
     = fst (ru_ClassifyFst_init example_env empty_world None False None (Some 0))"
proof -
  have b: "builds empty_world None False ''_en_itn.far''"
    "builds empty_world None False ''_ru_itn.far''"
    by (simp_all add: builds_def far_file_of_def cache_hit_def)
  from punctuation_shift_is_constant
         [of example_taggers empty_world None False None 0 example_env] b
  show ?thesis by metis
qed

theorem punctuation_weight_entry_counterexample:
  "map_of (heap punctuation_world 0) ''punctuation'' = Some 5
   \<and> map_sum id (shifts_of (Compiled ''punct''))
       (fst (en_ClassifyFst_init example_taggers punctuation_world None False None (Some 0)))
     = Inr [1.1, 1.1, 1.1, 1.1]"
  by (simp add: punctuation_world_def empty_world_def en_init_builds builds_def far_file_of_def
      cache_hit_def en_graph_def Let_def token_plus_punct_def token_def punct_def
      spec_classify_def union_order_def filtered_graph_def class_graphs_of_def example_taggers_def
      dict_get_def or_empty_def)

text \<open>
  C9. A constructor that is given a dictionary for \<^verbatim>\<open>class_weights\<close> writes into that
  very object, on every path: after the call the caller's dictionary is its old
  content followed by the default entry of every class it lacked, so it holds all
  eleven keys, its own entries are unchanged, and no other object is touched. A
  later construction (of either language) on the same object reads the dictionary
  as the earlier one left it and inserts nothing. Both constructors.
\<close>
theorem class_weights_mutated_in_place:
  "(let w1 = snd (en_ClassifyFst_init t w cache_dir overwrite_cache excluded_classes (Some a)) in
        heap w1 a = fill_defaults default_class_weights (heap w a)
      \<and> (\<exists>new. heap w1 a = heap w a @ new)
      \<and> set classes \<subseteq> fst ` set (heap w1 a)
      \<and> (\<forall>k. dict_contains k (heap w a) \<longrightarrow> map_of (heap w1 a) k = map_of (heap w a) k)
      \<and> (\<forall>k. \<not> dict_contains k (heap w a) \<longrightarrow>
             map_of (heap w1 a) k = map_of default_class_weights k)
      \<and> (\<forall>b. b \<noteq> a \<longrightarrow> heap w1 b = heap w b)
      \<and> snd (fst (configure excluded_classes' (Some a) w1)) = heap w1 a
      \<and> heap (snd (en_ClassifyFst_init t' w1 cache_dir' overwrite_cache' excluded_classes'
                      (Some a))) a = heap w1 a
      \<and> heap (snd (ru_ClassifyFst_init env' w1 cache_dir' overwrite_cache' excluded_classes'
                      (Some a))) a = heap w1 a)
   \<and> (let w1 = snd (ru_ClassifyFst_init env w cache_dir overwrite_cache excluded_classes (Some a)) in
        heap w1 a = fill_defaults default_class_weights (heap w a)
      \<and> (\<exists>new. heap w1 a = heap w a @ new)
      \<and> set classes \<subseteq> fst ` set (heap w1 a)
      \<and> (\<forall>k. dict_contains k (heap w a) \<longrightarrow> map_of (heap w1 a) k = map_of (heap w a) k)
      \<and> (\<forall>k. \<not> dict_contains k (heap w a) \<longrightarrow>
             map_of (heap w1 a) k = map_of default_class_weights k)
      \<and> (\<forall>b. b \<noteq> a \<longrightarrow> heap w1 b = heap w b)
      \<and> snd (fst (configure excluded_classes' (Some a) w1)) = heap w1 a
      \<and> heap (snd (en_ClassifyFst_init t' w1 cache_dir' overwrite_cache' excluded_classes'
                      (Some a))) a = heap w1 a
      \<and> heap (snd (ru_ClassifyFst_init env' w1 cache_dir' overwrite_cache' excluded_classes'
                      (Some a))) a = heap w1 a)"
  unfolding Let_def
  apply (rule conjI)
   apply (rule configure_mutates, rule heap_en_init)
  apply (rule configure_mutates, rule heap_ru_init)
  done


theorem class_weights_mutated_in_place_witness:
  "dict_contains ''word'' (heap word_world 0) \<and> \<not> dict_contains ''date'' (heap word_world 0)
   \<and> (1::nat) \<noteq> 0
   \<and> map_of (heap (snd (en_ClassifyFst_init example_taggers word_world None False None (Some 0))) 0)
        ''word'' = Some 3
   \<and> map_of (heap (snd (en_ClassifyFst_init example_taggers word_world None False None (Some 0))) 0)
        ''date'' = Some 1.09
   \<and> heap (snd (en_ClassifyFst_init example_taggers word_world None False None (Some 0))) 1
        = [(''word'', 3)]
   \<and> map_of (heap (snd (ru_ClassifyFst_init example_env word_world None False None (Some 0))) 0)
        ''word'' = Some 3
   \<and> map_of (heap (snd (ru_ClassifyFst_init example_env word_world None False None (Some 0))) 0)
        ''date'' = Some 1.09
   \<and> heap (snd (ru_ClassifyFst_init example_env word_world None False None (Some 0))) 1
        = [(''word'', 3)]"
proof -
  have has: "dict_contains ''word'' (heap word_world 0)"
    and lacks: "\<not> dict_contains ''date'' (heap word_world 0)"
    and other: "(1::nat) \<noteq> 0"
    by (simp_all add: word_world_def dict_contains_def)
  have old: "map_of (heap word_world 0) ''word'' = Some 3"
    and dflt: "map_of default_class_weights ''date'' = Some 1.09"
    and frame: "heap word_world 1 = [(''word'', 3)]"
    by (simp_all add: word_world_def default_class_weights_def)
  from class_weights_mutated_in_place
         [unfolded Let_def, where w = word_world and a = 0 and t = example_taggers
            and env = example_env and cache_dir = None and overwrite_cache = False
            and excluded_classes = None]
       has lacks other old dflt frame
  show ?thesis by metis
qed

text \<open>
  C1, as amended. The cache slot is \<^verbatim>\<open>cache_dir\<close> joined with a file name fixed per
  language (\<^verbatim>\<open>_en_itn.far\<close>, \<^verbatim>\<open>_ru_itn.far\<close>); neither \<^verbatim>\<open>excluded_classes\<close> nor
  \<^verbatim>\<open>class_weights\<close> enters it. With \<^verbatim>\<open>overwrite_cache\<close> false and an archive at the
  slot, the constructor returns the grammar stored there whatever its configuration;
  in particular a call that follows a build in the same \<^verbatim>\<open>cache_dir\<close> returns the
  grammar of that build, for every configuration of the later call. Both
  constructors. The claim as stated (differently configured calls never collide)
  fails: after a build that excludes \<^verbatim>\<open>cardinal\<close>, a call with no exclusion returns
  the grammar without cardinals, which is not the grammar its own configuration
  builds.
\<close>
theorem cache_slot_ignores_configuration:
  "(far_file_of w cache_dir ''_en_itn.far'' = Inr (Some f) \<and> \<not> overwrite_cache
      \<and> files w f = Some (FarArchive graphs)
      \<and> map_of graphs ''tokenize_and_classify'' = Some g \<longrightarrow>
      fst (en_ClassifyFst_init t w cache_dir overwrite_cache excluded_classes class_weights)
        = Inr g)
   \<and> (far_file_of w cache_dir ''_en_itn.far'' = Inr (Some f)
      \<and> builds w cache_dir overwrite_cache ''_en_itn.far'' \<longrightarrow>
      fst (en_ClassifyFst_init t'
             (snd (en_ClassifyFst_init t w cache_dir overwrite_cache excluded_classes
                     class_weights))
             cache_dir False excluded_classes' class_weights')
        = fst (en_ClassifyFst_init t w cache_dir overwrite_cache excluded_classes class_weights))
   \<and> (far_file_of w cache_dir ''_ru_itn.far'' = Inr (Some f) \<and> \<not> overwrite_cache
      \<and> files w f = Some (FarArchive graphs)
      \<and> map_of graphs ''tokenize_and_classify'' = Some g \<longrightarrow>
      fst (ru_ClassifyFst_init env w cache_dir overwrite_cache excluded_classes class_weights)
        = Inr g)
   \<and> (far_file_of w cache_dir ''_ru_itn.far'' = Inr (Some f)
      \<and> builds w cache_dir overwrite_cache ''_ru_itn.far'' \<longrightarrow>
      fst (ru_ClassifyFst_init env'
             (snd (ru_ClassifyFst_init env w cache_dir overwrite_cache excluded_classes
                     class_weights))
             cache_dir False excluded_classes' class_weights')
        = fst (ru_ClassifyFst_init env w cache_dir overwrite_cache excluded_classes class_weights))"
proof (intro conjI impI; (elim conjE)?)
  assume "far_file_of w cache_dir ''_en_itn.far'' = Inr (Some f)" "\<not> overwrite_cache"
    "files w f = Some (FarArchive graphs)" "map_of graphs ''tokenize_and_classify'' = Some g"
  then show "fst (en_ClassifyFst_init t w cache_dir overwrite_cache excluded_classes class_weights)
        = Inr g"
    by (simp add: en_init_load_result(1) far_read_archive)
next
  assume slot: "far_file_of w cache_dir ''_en_itn.far'' = Inr (Some f)"
    and b: "builds w cache_dir overwrite_cache ''_en_itn.far''"
  let ?w1 = "snd (en_ClassifyFst_init t w cache_dir overwrite_cache excluded_classes class_weights)"
  note stored = en_init_stores [OF b slot, of t excluded_classes class_weights]
  have slot1: "far_file_of ?w1 cache_dir ''_en_itn.far'' = Inr (Some f)"
    using en_init_keeps_slot [OF b slot] slot by simp
  have "fst (en_ClassifyFst_init t' ?w1 cache_dir False excluded_classes' class_weights')
          = far_read ?w1 f ''tokenize_and_classify''"
    by (rule en_init_load_result(1) [OF slot1]) (simp_all add: stored)
  also have "\<dots> = fst (en_ClassifyFst_init t w cache_dir overwrite_cache excluded_classes class_weights)"
    unfolding en_init_builds [OF b]
    by (rule far_read_archive [OF stored]) simp
  finally show "fst (en_ClassifyFst_init t' ?w1 cache_dir False excluded_classes' class_weights')
        = fst (en_ClassifyFst_init t w cache_dir overwrite_cache excluded_classes class_weights)" .
next
  assume "far_file_of w cache_dir ''_ru_itn.far'' = Inr (Some f)" "\<not> overwrite_cache"
    "files w f = Some (FarArchive graphs)" "map_of graphs ''tokenize_and_classify'' = Some g"
  then show "fst (ru_ClassifyFst_init env w cache_dir overwrite_cache excluded_classes class_weights)
        = Inr g"
    by (simp add: ru_init_load_result(1) far_read_archive)
next
  assume slot: "far_file_of w cache_dir ''_ru_itn.far'' = Inr (Some f)"
    and b: "builds w cache_dir overwrite_cache ''_ru_itn.far''"
  let ?w1 = "snd (ru_ClassifyFst_init env w cache_dir overwrite_cache excluded_classes class_weights)"
  note stored = ru_init_stores [OF b slot, of env excluded_classes class_weights]
  have slot1: "far_file_of ?w1 cache_dir ''_ru_itn.far'' = Inr (Some f)"
    using ru_init_keeps_slot [OF b slot] slot by simp
  have "fst (ru_ClassifyFst_init env' ?w1 cache_dir False excluded_classes' class_weights')
          = far_read ?w1 f ''tokenize_and_classify''"
    by (rule ru_init_load_result(1) [OF slot1]) (simp_all add: stored)
  also have "\<dots> = fst (ru_ClassifyFst_init env w cache_dir overwrite_cache excluded_classes class_weights)"
    unfolding ru_init_builds [OF b]
    by (rule far_read_archive [OF stored]) simp
  finally show "fst (ru_ClassifyFst_init env' ?w1 cache_dir False excluded_classes' class_weights')
        = fst (ru_ClassifyFst_init env w cache_dir overwrite_cache excluded_classes class_weights)" .
qed


theorem cache_slot_ignores_configuration_witness:
  "far_file_of cached_world (Some ''cache'') ''_en_itn.far'' = Inr (Some ''cache/_en_itn.far'')
   \<and> far_file_of cached_world (Some ''cache'') ''_ru_itn.far'' = Inr (Some ''cache/_ru_itn.far'')
   \<and> far_file_of empty_world (Some ''cache'') ''_en_itn.far'' = Inr (Some ''cache/_en_itn.far'')
   \<and> far_file_of empty_world (Some ''cache'') ''_ru_itn.far'' = Inr (Some ''cache/_ru_itn.far'')
   \<and> files cached_world ''cache/_en_itn.far''
        = Some (FarArchive [(''tokenize_and_classify'', Compiled ''earlier'')])
   \<and> files cached_world ''cache/_ru_itn.far''
        = Some (FarArchive [(''tokenize_and_classify'', Compiled ''earlier'')])
   \<and> builds empty_world (Some ''cache'') False ''_en_itn.far''
   \<and> builds empty_world (Some ''cache'') False ''_ru_itn.far''
   \<and> fst (en_ClassifyFst_init example_taggers cached_world (Some ''cache'') False
             (Some [(''cardinal'', True)]) None) = Inr (Compiled ''earlier'')
   \<and> fst (ru_ClassifyFst_init example_env cached_world (Some ''cache'') False
             (Some [(''cardinal'', True)]) None) = Inr (Compiled ''earlier'')
   \<and> fst (en_ClassifyFst_init example_taggers
             (snd (en_ClassifyFst_init example_taggers empty_world (Some ''cache'') False
                     (Some [(''cardinal'', True)]) None))
             (Some ''cache'') False None None)
       = fst (en_ClassifyFst_init example_taggers empty_world (Some ''cache'') False
                (Some [(''cardinal'', True)]) None)
   \<and> fst (ru_ClassifyFst_init example_env
             (snd (ru_ClassifyFst_init example_env empty_world (Some ''cache'') False
                     (Some [(''cardinal'', True)]) None))
             (Some ''cache'') False None None)
       = fst (ru_ClassifyFst_init example_env empty_world (Some ''cache'') False
                (Some [(''cardinal'', True)]) None)"
proof -
  have en_file: "files cached_world ''cache/_en_itn.far''
        = Some (FarArchive [(''tokenize_and_classify'', Compiled ''earlier'')])"
    and ru_file: "files cached_world ''cache/_ru_itn.far''
        = Some (FarArchive [(''tokenize_and_classify'', Compiled ''earlier'')])"
    by (simp_all add: cached_world_def)
  have entry: "map_of [(''tokenize_and_classify'', Compiled ''earlier'')] ''tokenize_and_classify''
        = Some (Compiled ''earlier'')"
    by simp
  have flag: "\<not> False" by simp
  from cache_slot_ignores_configuration [where cache_dir = "Some ''cache''" and f = "''cache/_en_itn.far''" and w = cached_world
              and overwrite_cache = False and t = example_taggers
              and excluded_classes = "Some [(''cardinal'', True)]" and class_weights = None]
       example_slots(3) flag en_file entry
  have a: "fst (en_ClassifyFst_init example_taggers cached_world (Some ''cache'') False
             (Some [(''cardinal'', True)]) None) = Inr (Compiled ''earlier'')"
    by blast
  from cache_slot_ignores_configuration [where cache_dir = "Some ''cache''" and f = "''cache/_ru_itn.far''" and w = cached_world
              and overwrite_cache = False and env = example_env
              and excluded_classes = "Some [(''cardinal'', True)]" and class_weights = None]
       example_slots(4) flag ru_file entry
  have b: "fst (ru_ClassifyFst_init example_env cached_world (Some ''cache'') False
             (Some [(''cardinal'', True)]) None) = Inr (Compiled ''earlier'')"
    by blast
  from cache_slot_ignores_configuration [where cache_dir = "Some ''cache''" and f = "''cache/_en_itn.far''" and w = empty_world
              and overwrite_cache = False and t = example_taggers and t' = example_taggers
              and excluded_classes = "Some [(''cardinal'', True)]" and class_weights = None
              and excluded_classes' = None and class_weights' = None]
       example_slots(1) example_builds(1)
  have c: "fst (en_ClassifyFst_init example_taggers
             (snd (en_ClassifyFst_init example_taggers empty_world (Some ''cache'') False
                     (Some [(''cardinal'', True)]) None))
             (Some ''cache'') False None None)
       = fst (en_ClassifyFst_init example_taggers empty_world (Some ''cache'') False
                (Some [(''cardinal'', True)]) None)"
    by blast
  from cache_slot_ignores_configuration [where cache_dir = "Some ''cache''" and f = "''cache/_ru_itn.far''" and w = empty_world
              and overwrite_cache = False and env = example_env and env' = example_env
              and excluded_classes = "Some [(''cardinal'', True)]" and class_weights = None
              and excluded_classes' = None and class_weights' = None]
       example_slots(2) example_builds(2)
  have d: "fst (ru_ClassifyFst_init example_env
             (snd (ru_ClassifyFst_init example_env empty_world (Some ''cache'') False
                     (Some [(''cardinal'', True)]) None))
             (Some ''cache'') False None None)
       = fst (ru_ClassifyFst_init example_env empty_world (Some ''cache'') False
                (Some [(''cardinal'', True)]) None)"
    by blast
  show ?thesis
    using example_slots(1-4) example_builds(1,2) en_file ru_file a b c d by blast
qed

theorem cache_slot_collision_counterexample:
  "Some [(''cardinal'', True)] \<noteq> (None :: (string \<times> bool) list option)
   \<and> fst (en_ClassifyFst_init example_taggers
             (snd (en_ClassifyFst_init example_taggers empty_world (Some ''cache'') False
                     (Some [(''cardinal'', True)]) None))
             (Some ''cache'') False None None)
       = fst (en_ClassifyFst_init example_taggers empty_world (Some ''cache'') False
                (Some [(''cardinal'', True)]) None)
   \<and> fst (en_ClassifyFst_init example_taggers
             (snd (en_ClassifyFst_init example_taggers empty_world (Some ''cache'') False
                     (Some [(''cardinal'', True)]) None))
             (Some ''cache'') False None None)
       \<noteq> fst (en_ClassifyFst_init example_taggers empty_world (Some ''cache'') True None None)"
proof -
  let ?first = "en_ClassifyFst_init example_taggers empty_world (Some ''cache'') False
                     (Some [(''cardinal'', True)]) None"
  note stored = en_init_stores [OF example_builds(1) example_slots(1),
      of example_taggers "Some [(''cardinal'', True)]" None]
  have slot1: "far_file_of (snd ?first) (Some ''cache'') ''_en_itn.far''
      = Inr (Some ''cache/_en_itn.far'')"
    using en_init_keeps_slot [OF example_builds(1) example_slots(1)] example_slots(1) by simp
  have "fst (en_ClassifyFst_init example_taggers (snd ?first) (Some ''cache'') False None None)
          = far_read (snd ?first) ''cache/_en_itn.far'' ''tokenize_and_classify''"
    by (rule en_init_load_result(1) [OF slot1]) (simp_all add: stored)
  also have "\<dots> = fst ?first"
    unfolding en_init_builds [OF example_builds(1)]
    by (rule far_read_archive [OF stored]) simp
  finally have same: "fst (en_ClassifyFst_init example_taggers (snd ?first) (Some ''cache'') False
      None None) = fst ?first" .
  have fresh: "builds empty_world (Some ''cache'') True ''_en_itn.far''"
    by (simp add: builds_def example_slots cache_hit_def)
  have differ: "fst ?first
      \<noteq> fst (en_ClassifyFst_init example_taggers empty_world (Some ''cache'') True None None)"
    unfolding en_init_builds [OF example_builds(1)] en_init_builds [OF fresh]
    by (simp add: en_graph_def Let_def token_plus_punct_def token_def spec_classify_def
        union_order_def filtered_graph_def dict_get_def or_empty_def class_graphs_of_def
        example_taggers_def)
  show ?thesis using same differ by simp
qed

text \<open>
  C6, as amended. A missing artifact is a cache miss: the grammar is built, stored at
  the slot and returned. An artifact that is present but cannot be deserialized is
  not a miss: with \<^verbatim>\<open>overwrite_cache\<close> false the constructor takes the load path, the
  loader's error reaches the caller, nothing is logged beyond the diagnostics of the
  configuration and the disk is left as it was; the artifact is replaced only by a
  call with \<^verbatim>\<open>overwrite_cache\<close> true, which does not read it. Both constructors.
  The claim as stated (a corrupt artifact is rebuilt and the call returns normally)
  fails on a disk whose slot holds a file that is not an archive.
\<close>
theorem corrupt_artifact_propagates:
  "((far_file_of w cache_dir ''_en_itn.far'' = Inr (Some f) \<and> \<not> overwrite_cache
      \<and> files w f = Some Undeserializable \<longrightarrow>
        fst (en_ClassifyFst_init t w cache_dir overwrite_cache excluded_classes class_weights) = Inl (FstIOError f)
      \<and> files (snd (en_ClassifyFst_init t w cache_dir overwrite_cache excluded_classes class_weights)) = files w
      \<and> log (snd (en_ClassifyFst_init t w cache_dir overwrite_cache excluded_classes class_weights)) = log (snd (configure excluded_classes class_weights w)))
   \<and> (far_file_of w cache_dir ''_en_itn.far'' = Inr (Some f) \<and> files w f = None \<longrightarrow>
        (\<exists>g. fst (en_ClassifyFst_init t w cache_dir overwrite_cache excluded_classes class_weights) = Inr g
           \<and> files (snd (en_ClassifyFst_init t w cache_dir overwrite_cache excluded_classes class_weights)) f = Some (FarArchive [(''tokenize_and_classify'', g)])))
   \<and> (far_file_of w cache_dir ''_en_itn.far'' = Inr (Some f) \<and> overwrite_cache
      \<and> files w f = Some Undeserializable \<longrightarrow>
        (\<exists>g. fst (en_ClassifyFst_init t w cache_dir overwrite_cache excluded_classes class_weights) = Inr g
           \<and> files (snd (en_ClassifyFst_init t w cache_dir overwrite_cache excluded_classes class_weights)) f = Some (FarArchive [(''tokenize_and_classify'', g)]))))
   \<and> ((far_file_of w cache_dir ''_ru_itn.far'' = Inr (Some f) \<and> \<not> overwrite_cache
      \<and> files w f = Some Undeserializable \<longrightarrow>
        fst (ru_ClassifyFst_init env w cache_dir overwrite_cache excluded_classes class_weights) = Inl (FstIOError f)
      \<and> files (snd (ru_ClassifyFst_init env w cache_dir overwrite_cache excluded_classes class_weights)) = files w
      \<and> log (snd (ru_ClassifyFst_init env w cache_dir overwrite_cache excluded_classes class_weights)) = log (snd (configure excluded_classes class_weights w)))
   \<and> (far_file_of w cache_dir ''_ru_itn.far'' = Inr (Some f) \<and> files w f = None \<longrightarrow>
        (\<exists>g. fst (ru_ClassifyFst_init env w cache_dir overwrite_cache excluded_classes class_weights) = Inr g
           \<and> files (snd (ru_ClassifyFst_init env w cache_dir overwrite_cache excluded_classes class_weights)) f = Some (FarArchive [(''tokenize_and_classify'', g)])))
   \<and> (far_file_of w cache_dir ''_ru_itn.far'' = Inr (Some f) \<and> overwrite_cache
      \<and> files w f = Some Undeserializable \<longrightarrow>
        (\<exists>g. fst (ru_ClassifyFst_init env w cache_dir overwrite_cache excluded_classes class_weights) = Inr g
           \<and> files (snd (ru_ClassifyFst_init env w cache_dir overwrite_cache excluded_classes class_weights)) f = Some (FarArchive [(''tokenize_and_classify'', g)]))))"
proof (rule conjI)
  show "(far_file_of w cache_dir ''_en_itn.far'' = Inr (Some f) \<and> \<not> overwrite_cache
      \<and> files w f = Some Undeserializable \<longrightarrow>
        fst (en_ClassifyFst_init t w cache_dir overwrite_cache excluded_classes class_weights) = Inl (FstIOError f)
      \<and> files (snd (en_ClassifyFst_init t w cache_dir overwrite_cache excluded_classes class_weights)) = files w
      \<and> log (snd (en_ClassifyFst_init t w cache_dir overwrite_cache excluded_classes class_weights)) = log (snd (configure excluded_classes class_weights w)))
   \<and> (far_file_of w cache_dir ''_en_itn.far'' = Inr (Some f) \<and> files w f = None \<longrightarrow>
        (\<exists>g. fst (en_ClassifyFst_init t w cache_dir overwrite_cache excluded_classes class_weights) = Inr g
           \<and> files (snd (en_ClassifyFst_init t w cache_dir overwrite_cache excluded_classes class_weights)) f = Some (FarArchive [(''tokenize_and_classify'', g)])))
   \<and> (far_file_of w cache_dir ''_en_itn.far'' = Inr (Some f) \<and> overwrite_cache
      \<and> files w f = Some Undeserializable \<longrightarrow>
        (\<exists>g. fst (en_ClassifyFst_init t w cache_dir overwrite_cache excluded_classes class_weights) = Inr g
           \<and> files (snd (en_ClassifyFst_init t w cache_dir overwrite_cache excluded_classes class_weights)) f = Some (FarArchive [(''tokenize_and_classify'', g)])))"
  proof (cases "far_file_of w cache_dir ''_en_itn.far'' = Inr (Some f)")
    case True
    then show ?thesis by (rule en_corrupt_cache)
  next
    case False
    then show ?thesis by simp
  qed
  show "(far_file_of w cache_dir ''_ru_itn.far'' = Inr (Some f) \<and> \<not> overwrite_cache
      \<and> files w f = Some Undeserializable \<longrightarrow>
        fst (ru_ClassifyFst_init env w cache_dir overwrite_cache excluded_classes class_weights) = Inl (FstIOError f)
      \<and> files (snd (ru_ClassifyFst_init env w cache_dir overwrite_cache excluded_classes class_weights)) = files w
      \<and> log (snd (ru_ClassifyFst_init env w cache_dir overwrite_cache excluded_classes class_weights)) = log (snd (configure excluded_classes class_weights w)))
   \<and> (far_file_of w cache_dir ''_ru_itn.far'' = Inr (Some f) \<and> files w f = None \<longrightarrow>
        (\<exists>g. fst (ru_ClassifyFst_init env w cache_dir overwrite_cache excluded_classes class_weights) = Inr g
           \<and> files (snd (ru_ClassifyFst_init env w cache_dir overwrite_cache excluded_classes class_weights)) f = Some (FarArchive [(''tokenize_and_classify'', g)])))
   \<and> (far_file_of w cache_dir ''_ru_itn.far'' = Inr (Some f) \<and> overwrite_cache
      \<and> files w f = Some Undeserializable \<longrightarrow>
        (\<exists>g. fst (ru_ClassifyFst_init env w cache_dir overwrite_cache excluded_classes class_weights) = Inr g
           \<and> files (snd (ru_ClassifyFst_init env w cache_dir overwrite_cache excluded_classes class_weights)) f = Some (FarArchive [(''tokenize_and_classify'', g)])))"
  proof (cases "far_file_of w cache_dir ''_ru_itn.far'' = Inr (Some f)")
    case True
    then show ?thesis by (rule ru_corrupt_cache)
  next
    case False
    then show ?thesis by simp
  qed
qed

theorem corrupt_artifact_propagates_witness:
  "far_file_of corrupt_world (Some ''cache'') ''_en_itn.far'' = Inr (Some ''cache/_en_itn.far'')
   \<and> far_file_of corrupt_world (Some ''cache'') ''_ru_itn.far'' = Inr (Some ''cache/_ru_itn.far'')
   \<and> far_file_of empty_world (Some ''cache'') ''_en_itn.far'' = Inr (Some ''cache/_en_itn.far'')
   \<and> far_file_of empty_world (Some ''cache'') ''_ru_itn.far'' = Inr (Some ''cache/_ru_itn.far'')
   \<and> files corrupt_world ''cache/_en_itn.far'' = Some Undeserializable
   \<and> files corrupt_world ''cache/_ru_itn.far'' = Some Undeserializable
   \<and> files empty_world ''cache/_en_itn.far'' = None
   \<and> files empty_world ''cache/_ru_itn.far'' = None
   \<and> fst (en_ClassifyFst_init example_taggers corrupt_world (Some ''cache'') False None None) = Inl (FstIOError ''cache/_en_itn.far'')
   \<and> files (snd (en_ClassifyFst_init example_taggers corrupt_world (Some ''cache'') False None None)) = files corrupt_world
   \<and> (\<exists>g. fst (en_ClassifyFst_init example_taggers empty_world (Some ''cache'') False None None) = Inr g
          \<and> files (snd (en_ClassifyFst_init example_taggers empty_world (Some ''cache'') False None None)) ''cache/_en_itn.far'' = Some (FarArchive [(''tokenize_and_classify'', g)]))
   \<and> (\<exists>g. fst (en_ClassifyFst_init example_taggers corrupt_world (Some ''cache'') True None None) = Inr g
          \<and> files (snd (en_ClassifyFst_init example_taggers corrupt_world (Some ''cache'') True None None)) ''cache/_en_itn.far'' = Some (FarArchive [(''tokenize_and_classify'', g)]))
   \<and> fst (ru_ClassifyFst_init example_env corrupt_world (Some ''cache'') False None None) = Inl (FstIOError ''cache/_ru_itn.far'')
   \<and> files (snd (ru_ClassifyFst_init example_env corrupt_world (Some ''cache'') False None None)) = files corrupt_world
   \<and> (\<exists>g. fst (ru_ClassifyFst_init example_env empty_world (Some ''cache'') False None None) = Inr g
          \<and> files (snd (ru_ClassifyFst_init example_env empty_world (Some ''cache'') False None None)) ''cache/_ru_itn.far'' = Some (FarArchive [(''tokenize_and_classify'', g)]))
   \<and> (\<exists>g. fst (ru_ClassifyFst_init example_env corrupt_world (Some ''cache'') True None None) = Inr g
          \<and> files (snd (ru_ClassifyFst_init example_env corrupt_world (Some ''cache'') True None None)) ''cache/_ru_itn.far'' = Some (FarArchive [(''tokenize_and_classify'', g)]))"
proof -
  have en: "files corrupt_world ''cache/_en_itn.far'' = Some Undeserializable"
    and ru: "files corrupt_world ''cache/_ru_itn.far'' = Some Undeserializable"
    by (simp_all add: corrupt_world_def)
  have en_none: "files empty_world ''cache/_en_itn.far'' = None"
    and ru_none: "files empty_world ''cache/_ru_itn.far'' = None"
    by (simp_all add: empty_world_def)
  have no: "\<not> False" and yes: "True" by simp_all
  note a = corrupt_artifact_propagates
     [where cache_dir = "Some ''cache''" and w = corrupt_world and overwrite_cache = False
        and t = example_taggers and env = example_env and excluded_classes = None
        and class_weights = None]
  note b = corrupt_artifact_propagates
     [where cache_dir = "Some ''cache''" and w = empty_world and overwrite_cache = False
        and t = example_taggers and env = example_env and excluded_classes = None
        and class_weights = None]
  note c = corrupt_artifact_propagates
     [where cache_dir = "Some ''cache''" and w = corrupt_world and overwrite_cache = True
        and t = example_taggers and env = example_env and excluded_classes = None
        and class_weights = None]
  have en1: "fst (en_ClassifyFst_init example_taggers corrupt_world (Some ''cache'') False None None) = Inl (FstIOError ''cache/_en_itn.far'')"
    and en2: "files (snd (en_ClassifyFst_init example_taggers corrupt_world (Some ''cache'') False None None)) = files corrupt_world"
    using a [where f = "''cache/_en_itn.far''"] example_slots(5) no en by blast+
  have en3: "\<exists>g. fst (en_ClassifyFst_init example_taggers empty_world (Some ''cache'') False None None) = Inr g
          \<and> files (snd (en_ClassifyFst_init example_taggers empty_world (Some ''cache'') False None None)) ''cache/_en_itn.far''
              = Some (FarArchive [(''tokenize_and_classify'', g)])"
    using b [where f = "''cache/_en_itn.far''"] example_slots(1) en_none by blast
  have en4: "\<exists>g. fst (en_ClassifyFst_init example_taggers corrupt_world (Some ''cache'') True None None) = Inr g
          \<and> files (snd (en_ClassifyFst_init example_taggers corrupt_world (Some ''cache'') True None None)) ''cache/_en_itn.far''
              = Some (FarArchive [(''tokenize_and_classify'', g)])"
    using c [where f = "''cache/_en_itn.far''"] example_slots(5) yes en by blast
  have ru1: "fst (ru_ClassifyFst_init example_env corrupt_world (Some ''cache'') False None None) = Inl (FstIOError ''cache/_ru_itn.far'')"
    and ru2: "files (snd (ru_ClassifyFst_init example_env corrupt_world (Some ''cache'') False None None)) = files corrupt_world"
    using a [where f = "''cache/_ru_itn.far''"] example_slots(6) no ru by blast+
  have ru3: "\<exists>g. fst (ru_ClassifyFst_init example_env empty_world (Some ''cache'') False None None) = Inr g
          \<and> files (snd (ru_ClassifyFst_init example_env empty_world (Some ''cache'') False None None)) ''cache/_ru_itn.far''
              = Some (FarArchive [(''tokenize_and_classify'', g)])"
    using b [where f = "''cache/_ru_itn.far''"] example_slots(2) ru_none by blast
  have ru4: "\<exists>g. fst (ru_ClassifyFst_init example_env corrupt_world (Some ''cache'') True None None) = Inr g
          \<and> files (snd (ru_ClassifyFst_init example_env corrupt_world (Some ''cache'') True None None)) ''cache/_ru_itn.far''
              = Some (FarArchive [(''tokenize_and_classify'', g)])"
    using c [where f = "''cache/_ru_itn.far''"] example_slots(6) yes ru by blast
  show ?thesis
    using example_slots(5,6,1,2) en ru en_none ru_none en1 en2 en3 en4 ru1 ru2 ru3 ru4
    by (intro conjI)
qed

theorem corrupt_artifact_counterexample:
  "files corrupt_world ''cache/_en_itn.far'' = Some Undeserializable
   \<and> fst (en_ClassifyFst_init example_taggers corrupt_world (Some ''cache'') False None None)
       = Inl (FstIOError ''cache/_en_itn.far'')
   \<and> files corrupt_world ''cache/_ru_itn.far'' = Some Undeserializable
   \<and> fst (ru_ClassifyFst_init example_env corrupt_world (Some ''cache'') False None None)
       = Inl (FstIOError ''cache/_ru_itn.far'')"
proof -
  have en: "files corrupt_world ''cache/_en_itn.far'' = Some Undeserializable"
    and ru: "files corrupt_world ''cache/_ru_itn.far'' = Some Undeserializable"
    by (simp_all add: corrupt_world_def)
  have "fst (en_ClassifyFst_init example_taggers corrupt_world (Some ''cache'') False None None)
       = far_read corrupt_world ''cache/_en_itn.far'' ''tokenize_and_classify''"
    by (rule en_init_load_result(1) [OF example_slots(5)]) (simp_all add: en)
  moreover
  have "fst (ru_ClassifyFst_init example_env corrupt_world (Some ''cache'') False None None)
       = far_read corrupt_world ''cache/_ru_itn.far'' ''tokenize_and_classify''"
    by (rule ru_init_load_result(1) [OF example_slots(6)]) (simp_all add: ru)
  ultimately show ?thesis
    using en ru by (simp add: far_read_corrupt)
qed

text \<open>
  C10. Whenever the Russian constructor takes the build path, it constructs the
  forward-direction grammar with \<^verbatim>\<open>overwrite_cache=True\<close> and its own \<^verbatim>\<open>cache_dir\<close>: the
  world it continues from is the one that call leaves, the inverse taggers are made
  from the forward grammar as rebuilt (never from a cached one), and, when the cache
  directory is in use, the forward-direction artifact is written anew with the
  rebuilt grammar, whatever it held before and whatever \<^verbatim>\<open>overwrite_cache\<close> the caller
  passed. The forward constructor, the forward grammar and the name of its artifact
  (taken to differ from \<^verbatim>\<open>_ru_itn.far\<close>) come from outside the sources.
\<close>
theorem russian_build_rebuilds_forward_grammar:
  "builds w cache_dir overwrite_cache ''_ru_itn.far'' \<longrightarrow>
     (\<forall>far_file. far_file_of w cache_dir ''_ru_itn.far'' = Inr far_file \<longrightarrow>
        (\<exists>g. fst (ru_ClassifyFst_init env w cache_dir overwrite_cache excluded_classes class_weights)
                = Inr g
           \<and> snd (ru_ClassifyFst_init env w cache_dir overwrite_cache excluded_classes class_weights)
               = save far_file g
                   (snd (TNClassifyFst_init env
                      (logging_info ''Creating ClassifyFst grammars. This might take some time...''
                         (snd (configure excluded_classes class_weights w)))
                      ''cased'' False cache_dir True))))
     \<and> fst (ru_ClassifyFst_init env w cache_dir overwrite_cache excluded_classes class_weights)
         = build ru_graph (itn_taggers env (tn_grammar env ''cased'' False))
             (or_empty excluded_classes)
             (fill_defaults default_class_weights (or_empty (map_option (heap w) class_weights)))
     \<and> (\<forall>d. cache_dir = Some d \<and> d \<noteq> ''None''
             \<and> tn_far_name env ''cased'' False \<noteq> ''_ru_itn.far'' \<longrightarrow>
           files (snd (ru_ClassifyFst_init env w cache_dir overwrite_cache excluded_classes
                         class_weights))
             (os_path_join d (tn_far_name env ''cased'' False))
           = Some (FarArchive [(''tokenize_and_classify'', tn_grammar env ''cased'' False)]))"
proof (intro impI conjI allI; (elim conjE)?)
  fix far_file
  assume b: "builds w cache_dir overwrite_cache ''_ru_itn.far''"
    and slot: "far_file_of w cache_dir ''_ru_itn.far'' = Inr far_file"
  show "\<exists>g. fst (ru_ClassifyFst_init env w cache_dir overwrite_cache excluded_classes class_weights)
                = Inr g
           \<and> snd (ru_ClassifyFst_init env w cache_dir overwrite_cache excluded_classes class_weights)
               = save far_file g
                   (snd (TNClassifyFst_init env
                      (logging_info ''Creating ClassifyFst grammars. This might take some time...''
                         (snd (configure excluded_classes class_weights w)))
                      ''cased'' False cache_dir True))"
    using ru_init_builds [OF b] ru_init_builds_world [OF b slot] by blast
next
  assume b: "builds w cache_dir overwrite_cache ''_ru_itn.far''"
  show "fst (ru_ClassifyFst_init env w cache_dir overwrite_cache excluded_classes class_weights)
         = build ru_graph (itn_taggers env (tn_grammar env ''cased'' False))
             (or_empty excluded_classes)
             (fill_defaults default_class_weights (or_empty (map_option (heap w) class_weights)))"
    by (simp add: ru_init_builds [OF b] build_refines)
next
  fix d
  assume "builds w cache_dir overwrite_cache ''_ru_itn.far''" "cache_dir = Some d" "d \<noteq> ''None''"
    "tn_far_name env ''cased'' False \<noteq> ''_ru_itn.far''"
  then show "files (snd (ru_ClassifyFst_init env w cache_dir overwrite_cache excluded_classes
                         class_weights))
             (os_path_join d (tn_far_name env ''cased'' False))
           = Some (FarArchive [(''tokenize_and_classify'', tn_grammar env ''cased'' False)])"
    by (rule ru_init_rewrites_tn)
qed


theorem russian_build_rebuilds_forward_grammar_witness:
  "builds tn_cached_world (Some ''cache'') False ''_ru_itn.far''
   \<and> far_file_of tn_cached_world (Some ''cache'') ''_ru_itn.far'' = Inr (Some ''cache/_ru_itn.far'')
   \<and> ''cache'' \<noteq> ''None''
   \<and> tn_far_name example_env ''cased'' False \<noteq> ''_ru_itn.far''
   \<and> files tn_cached_world ''cache/_ru_tn.far''
        = Some (FarArchive [(''tokenize_and_classify'', Compiled ''stale'')])
   \<and> files (snd (ru_ClassifyFst_init example_env tn_cached_world (Some ''cache'') False None None))
        ''cache/_ru_tn.far''
        = Some (FarArchive [(''tokenize_and_classify'', Compiled ''tn'')])
   \<and> (\<exists>g. fst (ru_ClassifyFst_init example_env tn_cached_world (Some ''cache'') False None None)
              = Inr g
          \<and> snd (ru_ClassifyFst_init example_env tn_cached_world (Some ''cache'') False None None)
              = save (Some ''cache/_ru_itn.far'') g
                  (snd (TNClassifyFst_init example_env
                     (logging_info ''Creating ClassifyFst grammars. This might take some time...''
                        (snd (configure None None tn_cached_world)))
                     ''cased'' False (Some ''cache'') True)))"
proof -
  have absent: "files tn_cached_world ''cache/_ru_itn.far'' = None"
    by (simp add: tn_cached_world_def empty_world_def)
  have b: "builds tn_cached_world (Some ''cache'') False ''_ru_itn.far''"
    by (simp add: builds_def example_slots(7) cache_hit_def os_path_exists_def absent)
  have dir: "''cache'' \<noteq> ''None''" by simp
  have name: "tn_far_name example_env ''cased'' False \<noteq> ''_ru_itn.far''"
    by (simp add: example_env_def)
  have stale: "files tn_cached_world ''cache/_ru_tn.far''
        = Some (FarArchive [(''tokenize_and_classify'', Compiled ''stale'')])"
    by (simp add: tn_cached_world_def)
  have path: "os_path_join ''cache'' (tn_far_name example_env ''cased'' False) = ''cache/_ru_tn.far''"
    and built: "tn_grammar example_env ''cased'' False = Compiled ''tn''"
    by (simp_all add: os_path_join_def example_env_def)
  from russian_build_rebuilds_forward_grammar
         [where w = tn_cached_world and cache_dir = "Some ''cache''" and overwrite_cache = False
            and env = example_env and excluded_classes = None and class_weights = None]
       b example_slots(7) dir name
  have "(\<exists>g. fst (ru_ClassifyFst_init example_env tn_cached_world (Some ''cache'') False None None)
              = Inr g
          \<and> snd (ru_ClassifyFst_init example_env tn_cached_world (Some ''cache'') False None None)
              = save (Some ''cache/_ru_itn.far'') g
                  (snd (TNClassifyFst_init example_env
                     (logging_info ''Creating ClassifyFst grammars. This might take some time...''
                        (snd (configure None None tn_cached_world)))
                     ''cased'' False (Some ''cache'') True)))"
     and "files (snd (ru_ClassifyFst_init example_env tn_cached_world (Some ''cache'') False
                         None None))
             (os_path_join ''cache'' (tn_far_name example_env ''cased'' False))
           = Some (FarArchive [(''tokenize_and_classify'', tn_grammar example_env ''cased'' False)])"
    by blast+
  then show ?thesis
    unfolding path built using b example_slots(7) dir name stale by (intro conjI)
qed



end
